theory Spec2Isabelle
  imports Main
begin

section \<open>Quorum check for replica set configuration changes\<close>

text \<open>
  A shallow embedding of \<^verbatim>\<open>src/mongo/db/repl/check_quorum_for_config_change.cpp\<close>:
  the class \<^verbatim>\<open>QuorumChecker\<close> with its constructor, \<^verbatim>\<open>getRequests\<close>,
  \<^verbatim>\<open>processResponse\<close>, \<^verbatim>\<open>_onQuorumCheckComplete\<close>,
  \<^verbatim>\<open>_tabulateHeartbeatResponse\<close> and \<^verbatim>\<open>hasReceivedSufficientResponses\<close>.
  Member functions take the object as an explicit record and return the updated record.
  A failed \<^verbatim>\<open>invariant(...)\<close> aborts the process; it is the \<open>Inl\<close> branch of a sum.
  The C++ \<^verbatim>\<open>int\<close> counters are HOL integers: they are bounded by the number of
  responses processed, so 32-bit overflow plays no role in any property below.
  Log output (\<^verbatim>\<open>warning()\<close>) is not part of the state and is left out.
\<close>

subsection \<open>Data\<close>

datatype ErrorCode =
    OK
  | CallbackCanceled
  | NodeNotFound
  | NewReplicaSetConfigurationIncompatible
  | OtherError nat

record Status =
  code :: ErrorCode
  reason :: string

definition Status_OK :: Status where
  "Status_OK = \<lparr>code = OK, reason = []\<rparr>"

definition isOK :: "Status \<Rightarrow> bool" where
  "isOK st = (code st = OK)"

text \<open>
  \<^verbatim>\<open>MemberConfig\<close> and \<^verbatim>\<open>ReplicaSetConfig\<close> are declared outside the files at hand.
  The records carry the getters this file calls; the endpoint type \<^verbatim>\<open>HostAndPort\<close> is the
  type parameter \<open>'h\<close>, compared with \<open>=\<close> as \<^verbatim>\<open>operator!=\<close> compares it.
\<close>

record 'h MemberConfig =
  getId :: int
  getHostAndPort :: 'h
  isVoter :: bool
  isElectable :: bool

record 'h ReplicaSetConfig =
  getReplSetName :: string
  getConfigVersion :: int
  members :: "'h MemberConfig list"
  getHeartbeatTimeoutPeriodMillis :: int

definition getNumMembers :: "'h ReplicaSetConfig \<Rightarrow> int" where
  "getNumMembers cfg = int (length (members cfg))"

datatype Abort = InvariantFailure | IndexOutOfRange

text \<open>
  \<^verbatim>\<open>getMemberAt(i)\<close> indexes the member vector. An index outside the vector is undefined
  behaviour in C++; the model reports it as an abort of its own.
\<close>

definition getMemberAt :: "'h ReplicaSetConfig \<Rightarrow> int \<Rightarrow> Abort + 'h MemberConfig" where
  "getMemberAt cfg i =
     (if 0 \<le> i \<and> i < getNumMembers cfg then Inr (members cfg ! nat i)
      else Inl IndexOutOfRange)"

text \<open>Modelled from the spec: \<^verbatim>\<open>ReplicaSetConfig::getMajorityVoteCount\<close> is not among the
  source files. The spec's data model gives it as the floor of half the number of voters
  of the configuration, plus one.
\<close>

definition getMajorityVoteCount :: "'h ReplicaSetConfig \<Rightarrow> int" where
  "getMajorityVoteCount cfg = int (length (filter isVoter (members cfg))) div 2 + 1"

text \<open>
  The text conversions used when messages are built (\<^verbatim>\<open>HostAndPort::toString\<close> and the
  \<^verbatim>\<open>str::stream\<close> output of an integer) live outside the files at hand and are
  parameters of the model.
\<close>

record 'h Printers =
  hostToString :: "'h \<Rightarrow> string"
  streamInt :: "int \<Rightarrow> string"

text \<open>
  A heartbeat reply is read through five observations only, and the record holds exactly
  these: \<^verbatim>\<open>res["mismatch"].trueValue()\<close>, the C string \<^verbatim>\<open>res.getStringField("set")\<close>
  (whose first byte is NUL exactly when the string is empty),
  \<^verbatim>\<open>res["v"].numberInt()\<close>, \<^verbatim>\<open>res["v"].toString()\<close> and \<^verbatim>\<open>res["ok"].trueValue()\<close>.
\<close>

record HeartbeatReply =
  res_mismatch :: bool
  res_set :: string
  res_v :: int
  res_v_toString :: string
  res_ok :: bool

text \<open>\<^verbatim>\<open>ResponseStatus\<close> is a \<^verbatim>\<open>StatusWith\<close>: a non-OK status or a value.\<close>

datatype ResponseStatus =
    ResponseError Status
  | ResponseValue HeartbeatReply

record 'h ReplSetHeartbeatArgs =
  hb_setName :: string
  hb_protocolVersion :: int
  hb_configVersion :: int
  hb_checkEmpty :: bool
  hb_senderHost :: 'h
  hb_senderId :: int

record 'h RemoteCommandRequest =
  target :: 'h
  dbname :: string
  cmdObj :: "'h ReplSetHeartbeatArgs"
  timeout :: int

record 'h QuorumChecker =
  rsConfig :: "'h ReplicaSetConfig"
  myIndex :: int
  down :: "'h list"
  voters :: "'h list"
  numResponses :: int
  numElectable :: int
  vetoStatus :: Status
  finalStatus :: Status

subsection \<open>hasReceivedSufficientResponses\<close>

definition hasReceivedSufficientResponses :: "'h QuorumChecker \<Rightarrow> bool" where
  "hasReceivedSufficientResponses s =
     (if \<not> isOK (vetoStatus s) \<or> numResponses s = getNumMembers (rsConfig s) then True
      else if getConfigVersion (rsConfig s) = 1 then False
      else if numElectable s = 0 then False
      else if int (length (voters s)) < getMajorityVoteCount (rsConfig s) then False
      else True)"

subsection \<open>_onQuorumCheckComplete\<close>

text \<open>
  The loops \<^verbatim>\<open>for (size_t i = 1; i < xs.size(); ++i) message << ", " << xs[i].toString()\<close>,
  run on the elements after the first. The first element, \<^verbatim>\<open>front()\<close>, is read only
  where the vector was tested to be non-empty.
\<close>

fun streamRest :: "'h Printers \<Rightarrow> string \<Rightarrow> 'h list \<Rightarrow> string" where
  "streamRest pr message [] = message"
| "streamRest pr message (x # xs) =
     streamRest pr (message @ '', '' @ hostToString pr x) xs"

definition downMessage :: "'h Printers \<Rightarrow> 'h \<Rightarrow> 'h list \<Rightarrow> string" where
  "downMessage pr front rest =
     streamRest pr
       (''Could not contact the following nodes during replica set initiation: '' @
        hostToString pr front) rest"

definition votersMessage :: "'h Printers \<Rightarrow> int \<Rightarrow> 'h list \<Rightarrow> string" where
  "votersMessage pr majority vs =
     (let message =
        ''Quorum check failed because not enough voting nodes responded; required '' @
        streamInt pr majority @ '' but ''
      in case vs of
           [] \<Rightarrow> message @ ''none responded''
         | front # rest \<Rightarrow>
             streamRest pr
               (message @ ''only the following '' @ streamInt pr (int (length vs)) @
                '' voting nodes responded: '' @ hostToString pr front) rest)"

definition onQuorumCheckComplete :: "'h Printers \<Rightarrow> 'h QuorumChecker \<Rightarrow> 'h QuorumChecker" where
  "onQuorumCheckComplete pr s =
     (if \<not> isOK (vetoStatus s) then s\<lparr>finalStatus := vetoStatus s\<rparr>
      else if getConfigVersion (rsConfig s) = 1 \<and> down s \<noteq> [] then
        s\<lparr>finalStatus := \<lparr>code = NodeNotFound,
             reason = downMessage pr (hd (down s)) (tl (down s))\<rparr>\<rparr>
      else if numElectable s = 0 then
        s\<lparr>finalStatus := \<lparr>code = NodeNotFound,
             reason = ''Quorum check failed because no '' @
               ''electable nodes responded; at least one required for config''\<rparr>\<rparr>
      else if int (length (voters s)) < getMajorityVoteCount (rsConfig s) then
        s\<lparr>finalStatus := \<lparr>code = NodeNotFound,
             reason = votersMessage pr (getMajorityVoteCount (rsConfig s)) (voters s)\<rparr>\<rparr>
      else s\<lparr>finalStatus := Status_OK\<rparr>)"

subsection \<open>_tabulateHeartbeatResponse\<close>

text \<open>
  The member loop: the list argument holds the members from the loop index on. The first
  member with the target's endpoint is credited and the function returns; running off the
  end reaches \<^verbatim>\<open>invariant(false)\<close>.
\<close>

fun tabulateMembers ::
  "'h \<Rightarrow> 'h MemberConfig list \<Rightarrow> 'h QuorumChecker \<Rightarrow> Abort + 'h QuorumChecker" where
  "tabulateMembers tgt [] s = Inl InvariantFailure"
| "tabulateMembers tgt (memberConfig # ms) s =
     (if getHostAndPort memberConfig \<noteq> tgt then tabulateMembers tgt ms s
      else
        let s1 = (if isElectable memberConfig
                  then s\<lparr>numElectable := numElectable s + 1\<rparr> else s);
            s2 = (if isVoter memberConfig
                  then s1\<lparr>voters := voters s1 @ [tgt]\<rparr> else s1)
        in Inr s2)"

definition tabulateHeartbeatResponse ::
  "'h Printers \<Rightarrow> 'h RemoteCommandRequest \<Rightarrow> ResponseStatus \<Rightarrow> 'h QuorumChecker
     \<Rightarrow> Abort + 'h QuorumChecker" where
  "tabulateHeartbeatResponse pr request response s0 =
     (let s = s0\<lparr>numResponses := numResponses s0 + 1\<rparr> in
      case response of
        ResponseError st \<Rightarrow> Inr (s\<lparr>down := down s @ [target request]\<rparr>)
      | ResponseValue res \<Rightarrow>
          if res_mismatch res then
            Inr (s\<lparr>vetoStatus := \<lparr>code = NewReplicaSetConfigurationIncompatible,
                   reason = ''Our set name did not match that of '' @
                     hostToString pr (target request)\<rparr>\<rparr>)
          else if res_set res \<noteq> [] \<and> res_v res \<ge> getConfigVersion (rsConfig s) then
            Inr (s\<lparr>vetoStatus := \<lparr>code = NewReplicaSetConfigurationIncompatible,
                   reason = ''Our config version of '' @
                     streamInt pr (getConfigVersion (rsConfig s)) @
                     '' is no larger than the version on '' @
                     hostToString pr (target request) @
                     '', which is '' @ res_v_toString res\<rparr>\<rparr>)
          else if \<not> res_ok res then
            Inr (s\<lparr>down := down s @ [target request]\<rparr>)
          else tabulateMembers (target request) (members (rsConfig s)) s)"

subsection \<open>processResponse\<close>

definition processResponse ::
  "'h Printers \<Rightarrow> 'h RemoteCommandRequest \<Rightarrow> ResponseStatus \<Rightarrow> 'h QuorumChecker
     \<Rightarrow> Abort + 'h QuorumChecker" where
  "processResponse pr request response s =
     (case tabulateHeartbeatResponse pr request response s of
        Inl e \<Rightarrow> Inl e
      | Inr s' \<Rightarrow>
          if hasReceivedSufficientResponses s' then Inr (onQuorumCheckComplete pr s')
          else Inr s')"

text \<open>A sequence of \<^verbatim>\<open>processResponse\<close> calls on one checker, in order.\<close>

fun processResponses ::
  "'h Printers \<Rightarrow> ('h RemoteCommandRequest \<times> ResponseStatus) list \<Rightarrow> 'h QuorumChecker
     \<Rightarrow> Abort + 'h QuorumChecker" where
  "processResponses pr [] s = Inr s"
| "processResponses pr ((request, response) # rs) s =
     (case processResponse pr request response s of
        Inl e \<Rightarrow> Inl e
      | Inr s' \<Rightarrow> processResponses pr rs s')"

subsection \<open>The constructor\<close>

definition QuorumChecker_ctor ::
  "'h Printers \<Rightarrow> 'h ReplicaSetConfig \<Rightarrow> int \<Rightarrow> Abort + 'h QuorumChecker" where
  "QuorumChecker_ctor pr cfg idx =
     (let s = \<lparr>rsConfig = cfg, myIndex = idx, down = [], voters = [],
               numResponses = 1, numElectable = 0, vetoStatus = Status_OK,
               finalStatus = \<lparr>code = CallbackCanceled, reason = ''Quorum check canceled''\<rparr>\<rparr>
      in if \<not> idx < getNumMembers cfg then Inl InvariantFailure
         else case getMemberAt cfg idx of
           Inl e \<Rightarrow> Inl e
         | Inr myConfig \<Rightarrow>
             let s1 = (if isVoter myConfig
                       then s\<lparr>voters := voters s @ [getHostAndPort myConfig]\<rparr> else s);
                 s2 = (if isElectable myConfig then s1\<lparr>numElectable := 1\<rparr> else s1)
             in if hasReceivedSufficientResponses s2
                then Inr (onQuorumCheckComplete pr s2) else Inr s2)"

subsection \<open>getRequests\<close>

text \<open>
  The request loop \<^verbatim>\<open>for (int i = 0; i < getNumMembers(); ++i)\<close>: the list argument holds
  the members from index \<open>i\<close> on, its head is \<^verbatim>\<open>getMemberAt(i)\<close>.
\<close>

fun requestLoop ::
  "int \<Rightarrow> 'h ReplSetHeartbeatArgs \<Rightarrow> int \<Rightarrow> int \<Rightarrow> 'h MemberConfig list
     \<Rightarrow> 'h RemoteCommandRequest list \<Rightarrow> 'h RemoteCommandRequest list" where
  "requestLoop idx hbRequest tmo i [] requests = requests"
| "requestLoop idx hbRequest tmo i (m # ms) requests =
     (if idx = i then requestLoop idx hbRequest tmo (i + 1) ms requests
      else requestLoop idx hbRequest tmo (i + 1) ms
             (requests @ [\<lparr>target = getHostAndPort m, dbname = ''admin'',
                            cmdObj = hbRequest, timeout = tmo\<rparr>]))"

definition getRequests :: "'h QuorumChecker \<Rightarrow> Abort + 'h RemoteCommandRequest list" where
  "getRequests s =
     (let isInitialConfig = (getConfigVersion (rsConfig s) = 1) in
      case getMemberAt (rsConfig s) (myIndex s) of
        Inl e \<Rightarrow> Inl e
      | Inr myConfig \<Rightarrow>
          if hasReceivedSufficientResponses s then Inr []
          else
            let hbArgs = \<lparr>hb_setName = getReplSetName (rsConfig s),
                          hb_protocolVersion = 1,
                          hb_configVersion = getConfigVersion (rsConfig s),
                          hb_checkEmpty = isInitialConfig,
                          hb_senderHost = getHostAndPort myConfig,
                          hb_senderId = getId myConfig\<rparr>
            in Inr (requestLoop (myIndex s) hbArgs
                      (getHeartbeatTimeoutPeriodMillis (rsConfig s)) 0
                      (members (rsConfig s)) []))"

subsection \<open>One check, from construction through a sequence of responses\<close>

definition runCheck ::
  "'h Printers \<Rightarrow> 'h ReplicaSetConfig \<Rightarrow> int
     \<Rightarrow> ('h RemoteCommandRequest \<times> ResponseStatus) list \<Rightarrow> Abort + 'h QuorumChecker" where
  "runCheck pr cfg idx rs =
     (case QuorumChecker_ctor pr cfg idx of
        Inl e \<Rightarrow> Inl e
      | Inr s \<Rightarrow> processResponses pr rs s)"

subsection \<open>Vocabulary of the statements\<close>

text \<open>Texts separated by a comma and a blank, the way the messages enumerate endpoints.\<close>

fun commaList :: "string list \<Rightarrow> string" where
  "commaList [] = []"
| "commaList [x] = x"
| "commaList (x # y # ys) = x @ '', '' @ commaList (y # ys)"

text \<open>A reply that vetoes the configuration: a set-name mismatch, or an installed
  configuration whose version is not below the candidate's.\<close>

definition vetoes :: "'h ReplicaSetConfig \<Rightarrow> ResponseStatus \<Rightarrow> bool" where
  "vetoes cfg response =
     (case response of
        ResponseError st \<Rightarrow> False
      | ResponseValue res \<Rightarrow>
          res_mismatch res \<or> (res_set res \<noteq> [] \<and> res_v res \<ge> getConfigVersion cfg))"

definition canceledStatus :: Status where
  "canceledStatus = \<lparr>code = CallbackCanceled, reason = ''Quorum check canceled''\<rparr>"

subsection \<open>Concrete configurations and replies for the examples\<close>

function decimal :: "nat \<Rightarrow> string" where
  "decimal n = (if n < 10 then [''0123456789'' ! n]
                else decimal (n div 10) @ [''0123456789'' ! (n mod 10)])"
  by pat_completeness auto
termination
  by (relation "measure id") auto

declare decimal.simps [simp del]

definition demoPrinters :: "string Printers" where
  "demoPrinters = \<lparr>hostToString = (\<lambda>h. h),
     streamInt = (\<lambda>i. if i < 0 then CHR ''-'' # decimal (nat (- i)) else decimal (nat i))\<rparr>"

definition mkMember :: "int \<Rightarrow> 'h \<Rightarrow> bool \<Rightarrow> bool \<Rightarrow> 'h MemberConfig" where
  "mkMember i h vt el = \<lparr>getId = i, getHostAndPort = h, isVoter = vt, isElectable = el\<rparr>"

definition demoConfig :: "int \<Rightarrow> string MemberConfig list \<Rightarrow> string ReplicaSetConfig" where
  "demoConfig version ms =
     \<lparr>getReplSetName = ''rs0'', getConfigVersion = version, members = ms,
      getHeartbeatTimeoutPeriodMillis = 10000\<rparr>"

definition threeNodes :: "string MemberConfig list" where
  "threeNodes = [mkMember 1 ''h0'' True True, mkMember 2 ''h1'' True True,
                 mkMember 3 ''h2'' True True]"

definition demoChecker ::
  "int \<Rightarrow> string list \<Rightarrow> string list \<Rightarrow> int \<Rightarrow> int \<Rightarrow> Status \<Rightarrow> string QuorumChecker" where
  "demoChecker version dn vs nr ne veto =
     \<lparr>rsConfig = demoConfig version threeNodes, myIndex = 0, down = dn, voters = vs,
      numResponses = nr, numElectable = ne, vetoStatus = veto,
      finalStatus = canceledStatus\<rparr>"

definition heartbeatTo :: "string \<Rightarrow> string RemoteCommandRequest" where
  "heartbeatTo h =
     \<lparr>target = h, dbname = ''admin'',
      cmdObj = \<lparr>hb_setName = ''rs0'', hb_protocolVersion = 1, hb_configVersion = 2,
                hb_checkEmpty = False, hb_senderHost = ''h0'', hb_senderId = 1\<rparr>,
      timeout = 10000\<rparr>"

definition replyOk :: ResponseStatus where
  "replyOk = ResponseValue \<lparr>res_mismatch = False, res_set = [], res_v = 0,
                            res_v_toString = ''EOO'', res_ok = True\<rparr>"

definition replyNotOk :: ResponseStatus where
  "replyNotOk = ResponseValue \<lparr>res_mismatch = False, res_set = [], res_v = 0,
                               res_v_toString = ''EOO'', res_ok = False\<rparr>"

definition replyMismatch :: ResponseStatus where
  "replyMismatch = ResponseValue \<lparr>res_mismatch = True, res_set = [], res_v = 0,
                                  res_v_toString = ''EOO'', res_ok = False\<rparr>"

definition replyInstalled :: "int \<Rightarrow> ResponseStatus" where
  "replyInstalled n = ResponseValue \<lparr>res_mismatch = False, res_set = ''rs0'', res_v = n,
       res_v_toString = ''v: '' @ streamInt demoPrinters n, res_ok = True\<rparr>"

definition timedOut :: ResponseStatus where
  "timedOut = ResponseError \<lparr>code = OtherError 50, reason = ''operation exceeded time limit''\<rparr>"

section \<open>Properties\<close>

lemmas eval_defs =
  runCheck_def QuorumChecker_ctor_def processResponse_def tabulateHeartbeatResponse_def
  hasReceivedSufficientResponses_def onQuorumCheckComplete_def getRequests_def
  downMessage_def votersMessage_def vetoes_def Let_def

lemmas demo_defs =
  demoPrinters_def mkMember_def demoConfig_def threeNodes_def demoChecker_def
  heartbeatTo_def replyOk_def replyNotOk_def replyMismatch_def replyInstalled_def
  timedOut_def canceledStatus_def Status_OK_def isOK_def getNumMembers_def
  getMajorityVoteCount_def getMemberAt_def decimal.simps

subsection \<open>Finalization\<close>

lemma streamRest_commaList:
  "streamRest pr (msg @ hostToString pr x) xs =
   msg @ commaList (map (hostToString pr) (x # xs))"
proof (induction xs arbitrary: msg x)
  case Nil
  show ?case by simp
next
  case (Cons y ys)
  have "streamRest pr (msg @ hostToString pr x) (y # ys) =
        streamRest pr ((msg @ hostToString pr x @ '', '') @ hostToString pr y) ys"
    by simp
  also have "\<dots> = (msg @ hostToString pr x @ '', '') @
                   commaList (map (hostToString pr) (y # ys))"
    by (rule Cons.IH)
  finally show ?case by simp
qed

lemma downMessage_commaList:
  assumes "dn \<noteq> []"
  shows "downMessage pr (hd dn) (tl dn) =
         ''Could not contact the following nodes during replica set initiation: '' @
         commaList (map (hostToString pr) dn)"
proof -
  from assms obtain x xs where d: "dn = x # xs" by (cases dn) auto
  show ?thesis unfolding downMessage_def d list.sel by (rule streamRest_commaList)
qed

text \<open>
  Claim C1. Finalization follows one priority: a veto becomes the final status; else,
  for version 1 with a non-empty down list, the final status is NodeNotFound and its
  message lists every downed endpoint in the order recorded; else with no electable
  responder it is NodeNotFound; else with fewer voters than the majority vote count it
  is NodeNotFound; else it is OK. Nothing but \<open>finalStatus\<close> is written. The statement
  holds in every state, so in particular whenever sufficiency holds.
\<close>

theorem onQuorumCheckComplete_priority:
  "(\<not> isOK (vetoStatus s) \<longrightarrow> finalStatus (onQuorumCheckComplete pr s) = vetoStatus s) \<and>
   (isOK (vetoStatus s) \<and> getConfigVersion (rsConfig s) = 1 \<and> down s \<noteq> [] \<longrightarrow>
      finalStatus (onQuorumCheckComplete pr s) =
        \<lparr>code = NodeNotFound,
         reason = ''Could not contact the following nodes during replica set initiation: '' @
                  commaList (map (hostToString pr) (down s))\<rparr>) \<and>
   (isOK (vetoStatus s) \<and> \<not> (getConfigVersion (rsConfig s) = 1 \<and> down s \<noteq> []) \<and>
    numElectable s = 0 \<longrightarrow>
      code (finalStatus (onQuorumCheckComplete pr s)) = NodeNotFound) \<and>
   (isOK (vetoStatus s) \<and> \<not> (getConfigVersion (rsConfig s) = 1 \<and> down s \<noteq> []) \<and>
    numElectable s \<noteq> 0 \<and> int (length (voters s)) < getMajorityVoteCount (rsConfig s) \<longrightarrow>
      code (finalStatus (onQuorumCheckComplete pr s)) = NodeNotFound) \<and>
   (isOK (vetoStatus s) \<and> \<not> (getConfigVersion (rsConfig s) = 1 \<and> down s \<noteq> []) \<and>
    numElectable s \<noteq> 0 \<and> \<not> int (length (voters s)) < getMajorityVoteCount (rsConfig s) \<longrightarrow>
      finalStatus (onQuorumCheckComplete pr s) = Status_OK) \<and>
   onQuorumCheckComplete pr s = s\<lparr>finalStatus := finalStatus (onQuorumCheckComplete pr s)\<rparr>"
  using downMessage_commaList [of "down s" pr]
  by (simp add: onQuorumCheckComplete_def)

theorem onQuorumCheckComplete_priority_witness:
  "finalStatus (onQuorumCheckComplete demoPrinters
      (demoChecker 1 [''h1''] [''h0''] 2
         1 \<lparr>code = NewReplicaSetConfigurationIncompatible, reason = ''veto''\<rparr>)) =
     \<lparr>code = NewReplicaSetConfigurationIncompatible, reason = ''veto''\<rparr> \<and>
   finalStatus (onQuorumCheckComplete demoPrinters
      (demoChecker 1 [''h1'', ''h2''] [''h0''] 3 1 Status_OK)) =
     \<lparr>code = NodeNotFound,
      reason = ''Could not contact the following nodes during replica set initiation: h1, h2''\<rparr> \<and>
   code (finalStatus (onQuorumCheckComplete demoPrinters
      (demoChecker 2 [''h1''] [''h0'', ''h2''] 3 0 Status_OK))) = NodeNotFound \<and>
   code (finalStatus (onQuorumCheckComplete demoPrinters
      (demoChecker 2 [''h1'', ''h2''] [''h0''] 3 1 Status_OK))) = NodeNotFound \<and>
   finalStatus (onQuorumCheckComplete demoPrinters
      (demoChecker 2 [''h1''] [''h0'', ''h2''] 3 2 Status_OK)) = Status_OK"
  using
    onQuorumCheckComplete_priority [of
      "demoChecker 1 [''h1''] [''h0''] 2
         1 \<lparr>code = NewReplicaSetConfigurationIncompatible, reason = ''veto''\<rparr>" demoPrinters]
    onQuorumCheckComplete_priority [of
      "demoChecker 1 [''h1'', ''h2''] [''h0''] 3 1 Status_OK" demoPrinters]
    onQuorumCheckComplete_priority [of
      "demoChecker 2 [''h1''] [''h0'', ''h2''] 3 0 Status_OK" demoPrinters]
    onQuorumCheckComplete_priority [of
      "demoChecker 2 [''h1'', ''h2''] [''h0''] 3 1 Status_OK" demoPrinters]
    onQuorumCheckComplete_priority [of
      "demoChecker 2 [''h1''] [''h0'', ''h2''] 3 2 Status_OK" demoPrinters]
  by (simp add: demo_defs)

subsection \<open>What the operations leave unchanged\<close>


lemma tabulateMembers_find:
  "tabulateMembers tgt ms s =
     (case find (\<lambda>m. getHostAndPort m = tgt) ms of
        None \<Rightarrow> Inl InvariantFailure
      | Some m \<Rightarrow>
          Inr (s\<lparr>voters := voters s @ (if isVoter m then [tgt] else []),
                 numElectable := numElectable s + (if isElectable m then 1 else 0)\<rparr>))"
  by (induction ms) (simp_all add: Let_def)

lemma tabulate_frame:
  assumes "tabulateHeartbeatResponse pr request response s = Inr s'"
  shows "rsConfig s' = rsConfig s" and "myIndex s' = myIndex s"
    and "numResponses s' = numResponses s + 1"
    and "numElectable s \<le> numElectable s'"
    and "finalStatus s' = finalStatus s"
    and "\<not> isOK (vetoStatus s) \<Longrightarrow> \<not> isOK (vetoStatus s')"
    and "length (voters s) \<le> length (voters s')"
  using assms
  by (auto simp: tabulateHeartbeatResponse_def tabulateMembers_find Let_def isOK_def
           split: ResponseStatus.splits if_splits option.splits)

lemma onQuorumCheckComplete_frame:
  "rsConfig (onQuorumCheckComplete pr s) = rsConfig s"
  "myIndex (onQuorumCheckComplete pr s) = myIndex s"
  "numResponses (onQuorumCheckComplete pr s) = numResponses s"
  "numElectable (onQuorumCheckComplete pr s) = numElectable s"
  "vetoStatus (onQuorumCheckComplete pr s) = vetoStatus s"
  "voters (onQuorumCheckComplete pr s) = voters s"
  "down (onQuorumCheckComplete pr s) = down s"
  by (simp_all add: onQuorumCheckComplete_def)

lemma hasReceivedSufficientResponses_onQuorumCheckComplete:
  "hasReceivedSufficientResponses (onQuorumCheckComplete pr s) = hasReceivedSufficientResponses s"
  by (simp add: hasReceivedSufficientResponses_def onQuorumCheckComplete_frame)

lemma processResponse_frame:
  assumes "processResponse pr request response s = Inr s'"
  shows "rsConfig s' = rsConfig s" and "myIndex s' = myIndex s"
    and "numResponses s' = numResponses s + 1"
    and "numElectable s \<le> numElectable s'"
    and "\<not> isOK (vetoStatus s) \<Longrightarrow> \<not> isOK (vetoStatus s')"
    and "length (voters s) \<le> length (voters s')"
proof -
  from assms obtain t where t: "tabulateHeartbeatResponse pr request response s = Inr t"
    and s': "s' = (if hasReceivedSufficientResponses t then onQuorumCheckComplete pr t else t)"
    by (auto simp: processResponse_def split: sum.splits if_splits)
  note fr = tabulate_frame [OF t]
  show "rsConfig s' = rsConfig s" using fr(1) by (simp add: s' onQuorumCheckComplete_frame)
  show "myIndex s' = myIndex s" using fr(2) by (simp add: s' onQuorumCheckComplete_frame)
  show "numResponses s' = numResponses s + 1"
    using fr(3) by (simp add: s' onQuorumCheckComplete_frame)
  show "numElectable s \<le> numElectable s'"
    using fr(4) by (simp add: s' onQuorumCheckComplete_frame)
  show "\<not> isOK (vetoStatus s) \<Longrightarrow> \<not> isOK (vetoStatus s')"
    using fr(6) by (simp add: s' onQuorumCheckComplete_frame)
  show "length (voters s) \<le> length (voters s')"
    using fr(7) by (simp add: s' onQuorumCheckComplete_frame)
qed

lemma processResponses_frame:
  assumes "processResponses pr rs s = Inr s'"
  shows "rsConfig s' = rsConfig s \<and> myIndex s' = myIndex s \<and>
         numResponses s' = numResponses s + int (length rs) \<and>
         numElectable s \<le> numElectable s' \<and>
         (\<not> isOK (vetoStatus s) \<longrightarrow> \<not> isOK (vetoStatus s')) \<and>
         length (voters s) \<le> length (voters s')"
  using assms
proof (induction rs arbitrary: s)
  case Nil
  then show ?case by simp
next
  case (Cons r rs)
  obtain request response where r: "r = (request, response)" by (cases r)
  from Cons.prems obtain t where t: "processResponse pr request response s = Inr t"
    and rest: "processResponses pr rs t = Inr s'"
    by (auto simp: r split: sum.splits)
  from Cons.IH [OF rest] processResponse_frame [OF t] show ?case by auto
qed

lemma ctor_frame:
  assumes "QuorumChecker_ctor pr cfg idx = Inr s"
  shows "rsConfig s = cfg" and "myIndex s = idx" and "0 \<le> idx" and "idx < getNumMembers cfg"
    and "numResponses s = 1"
    and "numElectable s = (if isElectable (members cfg ! nat idx) then 1 else 0)"
    and "voters s = (if isVoter (members cfg ! nat idx)
                     then [getHostAndPort (members cfg ! nat idx)] else [])"
    and "down s = []" and "vetoStatus s = Status_OK"
  using assms
  by (auto simp: QuorumChecker_ctor_def getMemberAt_def Let_def onQuorumCheckComplete_frame
           split: if_splits sum.splits)

lemma runCheck_frame:
  assumes "runCheck pr cfg idx rs = Inr s"
  shows "rsConfig s = cfg" and "myIndex s = idx" and "0 \<le> idx" and "idx < getNumMembers cfg"
    and "0 \<le> numElectable s" and "numResponses s = 1 + int (length rs)"
proof -
  from assms obtain s0 where c: "QuorumChecker_ctor pr cfg idx = Inr s0"
    and p: "processResponses pr rs s0 = Inr s"
    by (auto simp: runCheck_def split: sum.splits)
  note fr = processResponses_frame [OF p]
  show "rsConfig s = cfg" using fr ctor_frame(1) [OF c] by simp
  show "myIndex s = idx" using fr ctor_frame(2) [OF c] by simp
  show "0 \<le> idx" by (rule ctor_frame(3) [OF c])
  show "idx < getNumMembers cfg" by (rule ctor_frame(4) [OF c])
  have "0 \<le> numElectable s0" by (simp add: ctor_frame(6) [OF c])
  with fr show "0 \<le> numElectable s" by linarith
  show "numResponses s = 1 + int (length rs)" using fr ctor_frame(5) [OF c] by simp
qed

subsection \<open>Sufficiency\<close>

text \<open>
  Claim C2. In every state of a check of a configuration of version at least 1 (the
  entry points admit no other), \<^verbatim>\<open>hasReceivedSufficientResponses\<close> is true exactly when
  a veto is set, or \<open>numResponses\<close> equals the number of members, or the version exceeds
  1 with at least one electable responder and at least a majority of voters. For version 1
  without a veto it is therefore true only when every member is accounted for.
\<close>

theorem sufficiency_characterisation:
  assumes "runCheck pr cfg idx rs = Inr s" and "1 \<le> getConfigVersion cfg"
  shows "(hasReceivedSufficientResponses s \<longleftrightarrow>
            \<not> isOK (vetoStatus s) \<or> numResponses s = getNumMembers cfg \<or>
            (getConfigVersion cfg > 1 \<and> numElectable s \<ge> 1 \<and>
             int (length (voters s)) \<ge> getMajorityVoteCount cfg)) \<and>
         (getConfigVersion cfg = 1 \<and> isOK (vetoStatus s) \<and> hasReceivedSufficientResponses s
            \<longrightarrow> numResponses s = getNumMembers cfg)"
proof -
  have c: "rsConfig s = cfg" and e: "0 \<le> numElectable s"
    using runCheck_frame [OF assms(1)] by simp_all
  show ?thesis
    using e assms(2) unfolding hasReceivedSufficientResponses_def c by auto
qed

theorem sufficiency_characterisation_witness:
  "runCheck demoPrinters (demoConfig 2 threeNodes) 0 [(heartbeatTo ''h1'', replyOk)] =
     Inr ((demoChecker 2 [] [''h0'', ''h1''] 2 2 Status_OK)\<lparr>finalStatus := Status_OK\<rparr>) \<and>
   hasReceivedSufficientResponses
     ((demoChecker 2 [] [''h0'', ''h1''] 2 2 Status_OK)\<lparr>finalStatus := Status_OK\<rparr>) \<and>
   runCheck demoPrinters (demoConfig 1 threeNodes) 0 [(heartbeatTo ''h1'', replyOk)] =
     Inr (demoChecker 1 [] [''h0'', ''h1''] 2 2 Status_OK) \<and>
   \<not> hasReceivedSufficientResponses (demoChecker 1 [] [''h0'', ''h1''] 2 2 Status_OK)"
proof -
  have r2: "runCheck demoPrinters (demoConfig 2 threeNodes) 0 [(heartbeatTo ''h1'', replyOk)] =
     Inr ((demoChecker 2 [] [''h0'', ''h1''] 2 2 Status_OK)\<lparr>finalStatus := Status_OK\<rparr>)"
    by (simp add: eval_defs demo_defs)
  have r1: "runCheck demoPrinters (demoConfig 1 threeNodes) 0 [(heartbeatTo ''h1'', replyOk)] =
     Inr (demoChecker 1 [] [''h0'', ''h1''] 2 2 Status_OK)"
    by (simp add: eval_defs demo_defs)
  have v2: "1 \<le> getConfigVersion (demoConfig 2 threeNodes)"
    and v1: "1 \<le> getConfigVersion (demoConfig 1 threeNodes)"
    by (simp_all add: demoConfig_def)
  from sufficiency_characterisation [OF r2 v2] sufficiency_characterisation [OF r1 v1] r1 r2
  show ?thesis by (simp add: demo_defs)
qed

subsection \<open>Vetoes\<close>

lemma processResponse_sets_veto:
  assumes "processResponse pr request response s = Inr s'"
    and "vetoes (rsConfig s) response \<or> code (vetoStatus s) = NewReplicaSetConfigurationIncompatible"
  shows "code (vetoStatus s') = NewReplicaSetConfigurationIncompatible \<and>
         finalStatus s' = vetoStatus s'"
proof -
  from assms(1) obtain t where t: "tabulateHeartbeatResponse pr request response s = Inr t"
    and s': "s' = (if hasReceivedSufficientResponses t then onQuorumCheckComplete pr t else t)"
    by (auto simp: processResponse_def split: sum.splits if_splits)
  have v: "code (vetoStatus t) = NewReplicaSetConfigurationIncompatible"
    using t assms(2)
    by (auto simp: tabulateHeartbeatResponse_def tabulateMembers_find vetoes_def Let_def
             split: ResponseStatus.splits if_splits option.splits)
  then have "\<not> isOK (vetoStatus t)" by (simp add: isOK_def)
  then show ?thesis
    using v by (simp add: s' hasReceivedSufficientResponses_def onQuorumCheckComplete_def)
qed

lemma processResponses_keep_veto:
  assumes "processResponses pr rs s = Inr s'"
    and "code (vetoStatus s) = NewReplicaSetConfigurationIncompatible"
    and "finalStatus s = vetoStatus s"
  shows "code (vetoStatus s') = NewReplicaSetConfigurationIncompatible \<and>
         finalStatus s' = vetoStatus s'"
  using assms
proof (induction rs arbitrary: s)
  case Nil
  then show ?case by simp
next
  case (Cons r rs)
  obtain request response where r: "r = (request, response)" by (cases r)
  from Cons.prems(1) obtain t where t: "processResponse pr request response s = Inr t"
    and rest: "processResponses pr rs t = Inr s'"
    by (auto simp: r split: sum.splits)
  from processResponse_sets_veto [OF t] Cons.prems(2)
  have "code (vetoStatus t) = NewReplicaSetConfigurationIncompatible"
    and "finalStatus t = vetoStatus t" by simp_all
  then show ?case by (rule Cons.IH [OF rest])
qed

text \<open>
  Claim C3. Whatever the checker's state and whatever else is processed before or after,
  if one of the processed responses carries \<open>mismatch = true\<close>, or a non-empty \<open>set\<close>
  with \<open>v\<close> at or above the candidate version, then the final status after the whole
  sequence has the code NewReplicaSetConfigurationIncompatible.
\<close>

theorem veto_always_wins:
  assumes "processResponses pr rs s = Inr s'"
    and "(request, response) \<in> set rs"
    and "vetoes (rsConfig s) response"
  shows "code (finalStatus s') = NewReplicaSetConfigurationIncompatible"
  using assms
proof (induction rs arbitrary: s)
  case Nil
  then show ?case by simp
next
  case (Cons r rs)
  obtain rq rsp where r: "r = (rq, rsp)" by (cases r)
  from Cons.prems(1) obtain t where t: "processResponse pr rq rsp s = Inr t"
    and rest: "processResponses pr rs t = Inr s'"
    by (auto simp: r split: sum.splits)
  have cfg: "rsConfig t = rsConfig s" by (rule processResponse_frame(1) [OF t])
  show ?case
  proof (cases "(request, response) = (rq, rsp)")
    case True
    with Cons.prems(3) have "vetoes (rsConfig s) rsp" by simp
    with processResponse_sets_veto [OF t]
    have "code (vetoStatus t) = NewReplicaSetConfigurationIncompatible"
      and "finalStatus t = vetoStatus t" by simp_all
    from processResponses_keep_veto [OF rest this] show ?thesis by simp
  next
    case False
    with Cons.prems(2) have "(request, response) \<in> set rs" by (auto simp: r)
    moreover from Cons.prems(3) have "vetoes (rsConfig t) response" by (simp add: cfg)
    ultimately show ?thesis by (rule Cons.IH [OF rest])
  qed
qed

theorem veto_always_wins_witness:
  "processResponses demoPrinters
     [(heartbeatTo ''h1'', replyMismatch), (heartbeatTo ''h2'', replyOk)]
     (demoChecker 3 [] [''h0''] 1 1 Status_OK) =
   Inr ((demoChecker 3 [] [''h0'', ''h2''] 3 2
          \<lparr>code = NewReplicaSetConfigurationIncompatible,
           reason = ''Our set name did not match that of h1''\<rparr>)
        \<lparr>finalStatus := \<lparr>code = NewReplicaSetConfigurationIncompatible,
           reason = ''Our set name did not match that of h1''\<rparr>\<rparr>) \<and>
   (heartbeatTo ''h1'', replyMismatch) \<in>
     set [(heartbeatTo ''h1'', replyMismatch), (heartbeatTo ''h2'', replyOk)] \<and>
   vetoes (rsConfig (demoChecker 3 [] [''h0''] 1 1 Status_OK)) replyMismatch \<and>
   processResponses demoPrinters
     [(heartbeatTo ''h1'', replyOk), (heartbeatTo ''h2'', replyInstalled 3)]
     (demoChecker 3 [] [''h0''] 1 1 Status_OK) =
   Inr ((demoChecker 3 [] [''h0'', ''h1''] 3 2
          \<lparr>code = NewReplicaSetConfigurationIncompatible,
           reason = ''Our config version of 3 is no larger than the version on h2, which is v: 3''\<rparr>)
        \<lparr>finalStatus := \<lparr>code = NewReplicaSetConfigurationIncompatible,
           reason = ''Our config version of 3 is no larger than the version on h2, which is v: 3''\<rparr>\<rparr>) \<and>
   vetoes (rsConfig (demoChecker 3 [] [''h0''] 1 1 Status_OK)) (replyInstalled 3)"
proof -
  have r1: "processResponses demoPrinters
     [(heartbeatTo ''h1'', replyMismatch), (heartbeatTo ''h2'', replyOk)]
     (demoChecker 3 [] [''h0''] 1 1 Status_OK) =
   Inr ((demoChecker 3 [] [''h0'', ''h2''] 3 2
          \<lparr>code = NewReplicaSetConfigurationIncompatible,
           reason = ''Our set name did not match that of h1''\<rparr>)
        \<lparr>finalStatus := \<lparr>code = NewReplicaSetConfigurationIncompatible,
           reason = ''Our set name did not match that of h1''\<rparr>\<rparr>)"
    by (simp add: eval_defs demo_defs)
  have r2: "processResponses demoPrinters
     [(heartbeatTo ''h1'', replyOk), (heartbeatTo ''h2'', replyInstalled 3)]
     (demoChecker 3 [] [''h0''] 1 1 Status_OK) =
   Inr ((demoChecker 3 [] [''h0'', ''h1''] 3 2
          \<lparr>code = NewReplicaSetConfigurationIncompatible,
           reason = ''Our config version of 3 is no larger than the version on h2, which is v: 3''\<rparr>)
        \<lparr>finalStatus := \<lparr>code = NewReplicaSetConfigurationIncompatible,
           reason = ''Our config version of 3 is no larger than the version on h2, which is v: 3''\<rparr>\<rparr>)"
    by (simp add: eval_defs demo_defs)
  have m1: "(heartbeatTo ''h1'', replyMismatch) \<in>
     set [(heartbeatTo ''h1'', replyMismatch), (heartbeatTo ''h2'', replyOk)]" by simp
  have m2: "(heartbeatTo ''h2'', replyInstalled 3) \<in>
     set [(heartbeatTo ''h1'', replyOk), (heartbeatTo ''h2'', replyInstalled 3)]" by simp
  have v1: "vetoes (rsConfig (demoChecker 3 [] [''h0''] 1 1 Status_OK)) replyMismatch"
    by (simp add: vetoes_def demo_defs)
  have v2: "vetoes (rsConfig (demoChecker 3 [] [''h0''] 1 1 Status_OK)) (replyInstalled 3)"
    by (simp add: vetoes_def demo_defs)
  from veto_always_wins [OF r1 m1 v1] veto_always_wins [OF r2 m2 v2] r1 r2 m1 v1 v2
  show ?thesis by simp
qed

subsection \<open>Tabulation\<close>

lemma tabulateMembers_first_match:
  assumes "i < length ms" and "getHostAndPort (ms ! i) = tgt"
    and "\<forall>j < i. getHostAndPort (ms ! j) \<noteq> tgt"
  shows "tabulateMembers tgt ms s =
           Inr (s\<lparr>voters := voters s @ (if isVoter (ms ! i) then [tgt] else []),
                  numElectable := numElectable s + (if isElectable (ms ! i) then 1 else 0)\<rparr>)"
proof -
  have "find (\<lambda>m. getHostAndPort m = tgt) ms = Some (ms ! i)"
    unfolding find_Some_iff using assms by blast
  then show ?thesis by (simp add: tabulateMembers_find)
qed

lemma tabulateMembers_no_match:
  assumes "tgt \<notin> getHostAndPort ` set ms"
  shows "tabulateMembers tgt ms s = Inl InvariantFailure"
proof -
  have "find (\<lambda>m. getHostAndPort m = tgt) ms = None"
    unfolding find_None_iff using assms by auto
  then show ?thesis by (simp add: tabulateMembers_find)
qed

text \<open>
  Claim C4. Tabulation counts the response in \<open>numResponses\<close> and then takes exactly one
  branch, tested in this order: a transport failure appends the target to \<open>down\<close>;
  \<open>mismatch\<close> sets the veto; a non-empty \<open>set\<close> with \<open>v\<close> at or above the candidate
  version sets the veto; \<open>ok = false\<close> appends the target to \<open>down\<close>; otherwise the
  first member with the target's endpoint is credited: \<open>numElectable\<close> grows by one if it
  is electable and the target is appended to \<open>voters\<close> if it is a voter. With no such
  member the invariant fails.
\<close>

theorem tabulateHeartbeatResponse_cases:
  "(response = ResponseError st \<longrightarrow>
      tabulateHeartbeatResponse pr request response s =
        Inr (s\<lparr>numResponses := numResponses s + 1, down := down s @ [target request]\<rparr>)) \<and>
   (response = ResponseValue res \<and> res_mismatch res \<longrightarrow>
      tabulateHeartbeatResponse pr request response s =
        Inr (s\<lparr>numResponses := numResponses s + 1,
               vetoStatus := \<lparr>code = NewReplicaSetConfigurationIncompatible,
                 reason = ''Our set name did not match that of '' @
                          hostToString pr (target request)\<rparr>\<rparr>)) \<and>
   (response = ResponseValue res \<and> \<not> res_mismatch res \<and>
    res_set res \<noteq> [] \<and> res_v res \<ge> getConfigVersion (rsConfig s) \<longrightarrow>
      tabulateHeartbeatResponse pr request response s =
        Inr (s\<lparr>numResponses := numResponses s + 1,
               vetoStatus := \<lparr>code = NewReplicaSetConfigurationIncompatible,
                 reason = ''Our config version of '' @
                          streamInt pr (getConfigVersion (rsConfig s)) @
                          '' is no larger than the version on '' @
                          hostToString pr (target request) @
                          '', which is '' @ res_v_toString res\<rparr>\<rparr>)) \<and>
   (response = ResponseValue res \<and> \<not> res_mismatch res \<and>
    \<not> (res_set res \<noteq> [] \<and> res_v res \<ge> getConfigVersion (rsConfig s)) \<and> \<not> res_ok res \<longrightarrow>
      tabulateHeartbeatResponse pr request response s =
        Inr (s\<lparr>numResponses := numResponses s + 1, down := down s @ [target request]\<rparr>)) \<and>
   (response = ResponseValue res \<and> \<not> res_mismatch res \<and>
    \<not> (res_set res \<noteq> [] \<and> res_v res \<ge> getConfigVersion (rsConfig s)) \<and> res_ok res \<and>
    i < length (members (rsConfig s)) \<and>
    getHostAndPort (members (rsConfig s) ! i) = target request \<and>
    (\<forall>j < i. getHostAndPort (members (rsConfig s) ! j) \<noteq> target request) \<longrightarrow>
      tabulateHeartbeatResponse pr request response s =
        Inr (s\<lparr>numResponses := numResponses s + 1,
               voters := voters s @
                 (if isVoter (members (rsConfig s) ! i) then [target request] else []),
               numElectable := numElectable s +
                 (if isElectable (members (rsConfig s) ! i) then 1 else 0)\<rparr>)) \<and>
   (response = ResponseValue res \<and> \<not> res_mismatch res \<and>
    \<not> (res_set res \<noteq> [] \<and> res_v res \<ge> getConfigVersion (rsConfig s)) \<and> res_ok res \<and>
    target request \<notin> getHostAndPort ` set (members (rsConfig s)) \<longrightarrow>
      tabulateHeartbeatResponse pr request response s = Inl InvariantFailure)"
proof (intro conjI impI)
  assume "response = ResponseError st"
  then show "tabulateHeartbeatResponse pr request response s =
        Inr (s\<lparr>numResponses := numResponses s + 1, down := down s @ [target request]\<rparr>)"
    by (simp add: tabulateHeartbeatResponse_def)
next
  assume "response = ResponseValue res \<and> res_mismatch res"
  then show "tabulateHeartbeatResponse pr request response s =
        Inr (s\<lparr>numResponses := numResponses s + 1,
               vetoStatus := \<lparr>code = NewReplicaSetConfigurationIncompatible,
                 reason = ''Our set name did not match that of '' @
                          hostToString pr (target request)\<rparr>\<rparr>)"
    by (simp add: tabulateHeartbeatResponse_def)
next
  assume "response = ResponseValue res \<and> \<not> res_mismatch res \<and>
    res_set res \<noteq> [] \<and> res_v res \<ge> getConfigVersion (rsConfig s)"
  then show "tabulateHeartbeatResponse pr request response s =
        Inr (s\<lparr>numResponses := numResponses s + 1,
               vetoStatus := \<lparr>code = NewReplicaSetConfigurationIncompatible,
                 reason = ''Our config version of '' @
                          streamInt pr (getConfigVersion (rsConfig s)) @
                          '' is no larger than the version on '' @
                          hostToString pr (target request) @
                          '', which is '' @ res_v_toString res\<rparr>\<rparr>)"
    by (simp add: tabulateHeartbeatResponse_def)
next
  assume "response = ResponseValue res \<and> \<not> res_mismatch res \<and>
    \<not> (res_set res \<noteq> [] \<and> res_v res \<ge> getConfigVersion (rsConfig s)) \<and> \<not> res_ok res"
  then show "tabulateHeartbeatResponse pr request response s =
        Inr (s\<lparr>numResponses := numResponses s + 1, down := down s @ [target request]\<rparr>)"
    by (auto simp: tabulateHeartbeatResponse_def)
next
  assume a: "response = ResponseValue res \<and> \<not> res_mismatch res \<and>
    \<not> (res_set res \<noteq> [] \<and> res_v res \<ge> getConfigVersion (rsConfig s)) \<and> res_ok res \<and>
    i < length (members (rsConfig s)) \<and>
    getHostAndPort (members (rsConfig s) ! i) = target request \<and>
    (\<forall>j < i. getHostAndPort (members (rsConfig s) ! j) \<noteq> target request)"
  then have "tabulateHeartbeatResponse pr request response s =
      tabulateMembers (target request) (members (rsConfig s))
        (s\<lparr>numResponses := numResponses s + 1\<rparr>)"
    by (auto simp: tabulateHeartbeatResponse_def)
  also have "\<dots> = Inr (s\<lparr>numResponses := numResponses s + 1,
               voters := voters s @
                 (if isVoter (members (rsConfig s) ! i) then [target request] else []),
               numElectable := numElectable s +
                 (if isElectable (members (rsConfig s) ! i) then 1 else 0)\<rparr>)"
    using a by (simp add: tabulateMembers_first_match [where i = i])
  finally show "tabulateHeartbeatResponse pr request response s =
        Inr (s\<lparr>numResponses := numResponses s + 1,
               voters := voters s @
                 (if isVoter (members (rsConfig s) ! i) then [target request] else []),
               numElectable := numElectable s +
                 (if isElectable (members (rsConfig s) ! i) then 1 else 0)\<rparr>)" .
next
  assume a: "response = ResponseValue res \<and> \<not> res_mismatch res \<and>
    \<not> (res_set res \<noteq> [] \<and> res_v res \<ge> getConfigVersion (rsConfig s)) \<and> res_ok res \<and>
    target request \<notin> getHostAndPort ` set (members (rsConfig s))"
  then have "tabulateHeartbeatResponse pr request response s =
      tabulateMembers (target request) (members (rsConfig s))
        (s\<lparr>numResponses := numResponses s + 1\<rparr>)"
    by (auto simp: tabulateHeartbeatResponse_def)
  also have "\<dots> = Inl InvariantFailure"
    using a by (simp add: tabulateMembers_no_match)
  finally show "tabulateHeartbeatResponse pr request response s = Inl InvariantFailure" .
qed

theorem tabulateHeartbeatResponse_cases_witness:
  "tabulateHeartbeatResponse demoPrinters (heartbeatTo ''h1'') timedOut
     (demoChecker 3 [] [''h0''] 1 1 Status_OK) =
     Inr (demoChecker 3 [''h1''] [''h0''] 2 1 Status_OK) \<and>
   tabulateHeartbeatResponse demoPrinters (heartbeatTo ''h1'') replyMismatch
     (demoChecker 3 [] [''h0''] 1 1 Status_OK) =
     Inr (demoChecker 3 [] [''h0''] 2 1
            \<lparr>code = NewReplicaSetConfigurationIncompatible,
             reason = ''Our set name did not match that of h1''\<rparr>) \<and>
   tabulateHeartbeatResponse demoPrinters (heartbeatTo ''h1'') (replyInstalled 3)
     (demoChecker 3 [] [''h0''] 1 1 Status_OK) =
     Inr (demoChecker 3 [] [''h0''] 2 1
            \<lparr>code = NewReplicaSetConfigurationIncompatible,
             reason = ''Our config version of 3 is no larger than the version on h1, which is v: 3''\<rparr>) \<and>
   tabulateHeartbeatResponse demoPrinters (heartbeatTo ''h1'') replyNotOk
     (demoChecker 3 [] [''h0''] 1 1 Status_OK) =
     Inr (demoChecker 3 [''h1''] [''h0''] 2 1 Status_OK) \<and>
   tabulateHeartbeatResponse demoPrinters (heartbeatTo ''h1'') (replyInstalled 2)
     (demoChecker 3 [] [''h0''] 1 1 Status_OK) =
     Inr (demoChecker 3 [] [''h0'', ''h1''] 2 2 Status_OK) \<and>
   tabulateHeartbeatResponse demoPrinters (heartbeatTo ''h9'') replyOk
     (demoChecker 3 [] [''h0''] 1 1 Status_OK) = Inl InvariantFailure"
  using
    tabulateHeartbeatResponse_cases [where response = timedOut
      and st = "\<lparr>code = OtherError 50, reason = ''operation exceeded time limit''\<rparr>"
      and pr = demoPrinters and request = "heartbeatTo ''h1''"
      and s = "demoChecker 3 [] [''h0''] 1 1 Status_OK"]
    tabulateHeartbeatResponse_cases [where response = replyMismatch
      and res = "\<lparr>res_mismatch = True, res_set = [], res_v = 0,
                  res_v_toString = ''EOO'', res_ok = False\<rparr>"
      and pr = demoPrinters and request = "heartbeatTo ''h1''"
      and s = "demoChecker 3 [] [''h0''] 1 1 Status_OK"]
    tabulateHeartbeatResponse_cases [where response = "replyInstalled 3"
      and res = "\<lparr>res_mismatch = False, res_set = ''rs0'', res_v = 3,
                  res_v_toString = ''v: 3'', res_ok = True\<rparr>"
      and pr = demoPrinters and request = "heartbeatTo ''h1''"
      and s = "demoChecker 3 [] [''h0''] 1 1 Status_OK"]
    tabulateHeartbeatResponse_cases [where response = replyNotOk
      and res = "\<lparr>res_mismatch = False, res_set = [], res_v = 0,
                  res_v_toString = ''EOO'', res_ok = False\<rparr>"
      and pr = demoPrinters and request = "heartbeatTo ''h1''"
      and s = "demoChecker 3 [] [''h0''] 1 1 Status_OK"]
    tabulateHeartbeatResponse_cases [where response = "replyInstalled 2"
      and res = "\<lparr>res_mismatch = False, res_set = ''rs0'', res_v = 2,
                  res_v_toString = ''v: 2'', res_ok = True\<rparr>"
      and i = 1
      and pr = demoPrinters and request = "heartbeatTo ''h1''"
      and s = "demoChecker 3 [] [''h0''] 1 1 Status_OK"]
    tabulateHeartbeatResponse_cases [where response = replyOk
      and res = "\<lparr>res_mismatch = False, res_set = [], res_v = 0,
                  res_v_toString = ''EOO'', res_ok = True\<rparr>"
      and pr = demoPrinters and request = "heartbeatTo ''h9''"
      and s = "demoChecker 3 [] [''h0''] 1 1 Status_OK"]
  by (simp add: demo_defs)

subsection \<open>Requests\<close>

lemma requestLoop_closed:
  "requestLoop idx hb tmo i ms requests =
     requests @
     map (\<lambda>m. \<lparr>target = getHostAndPort m, dbname = ''admin'', cmdObj = hb, timeout = tmo\<rparr>)
       (if i \<le> idx \<and> idx < i + int (length ms)
        then take (nat (idx - i)) ms @ drop (Suc (nat (idx - i))) ms else ms)"
proof (induction ms arbitrary: i requests)
  case Nil
  show ?case by simp
next
  case (Cons m ms)
  show ?case
  proof (cases "idx = i")
    case True
    then have "i = idx" by simp
    then show ?thesis by (simp add: Cons.IH)
  next
    case False
    show ?thesis
    proof (cases "i \<le> idx \<and> idx < i + int (length (m # ms))")
      case True
      with False have "nat (idx - i) = Suc (nat (idx - (i + 1)))" by linarith
      with True False show ?thesis by (simp add: Cons.IH)
    next
      case False
      with \<open>idx \<noteq> i\<close> show ?thesis by (auto simp: Cons.IH)
    qed
  qed
qed

text \<open>
  Claim C6. A checker that is not yet sufficient (its own index within the member list)
  emits one request for each member other than itself, in member order. Each request is
  addressed to that member's endpoint with the configuration's heartbeat timeout, and its
  payload names the set, protocol version 1, the candidate version, the sender's endpoint
  and id, with \<open>checkEmpty\<close> true exactly when the candidate version is 1.
\<close>

theorem getRequests_one_per_other_member:
  assumes "\<not> hasReceivedSufficientResponses s"
    and "0 \<le> myIndex s" and "myIndex s < getNumMembers (rsConfig s)"
  shows "getRequests s =
     Inr (map (\<lambda>m. \<lparr>target = getHostAndPort m, dbname = ''admin'',
                     cmdObj = \<lparr>hb_setName = getReplSetName (rsConfig s),
                               hb_protocolVersion = 1,
                               hb_configVersion = getConfigVersion (rsConfig s),
                               hb_checkEmpty = (getConfigVersion (rsConfig s) = 1),
                               hb_senderHost =
                                 getHostAndPort (members (rsConfig s) ! nat (myIndex s)),
                               hb_senderId = getId (members (rsConfig s) ! nat (myIndex s))\<rparr>,
                     timeout = getHeartbeatTimeoutPeriodMillis (rsConfig s)\<rparr>)
            (take (nat (myIndex s)) (members (rsConfig s)) @
             drop (Suc (nat (myIndex s))) (members (rsConfig s))))"
  using assms
  by (simp add: getRequests_def getMemberAt_def getNumMembers_def requestLoop_closed Let_def)

theorem getRequests_one_per_other_member_witness:
  "\<not> hasReceivedSufficientResponses
       ((demoChecker 1 [] [''h0''] 1 1 Status_OK)\<lparr>myIndex := 1\<rparr>) \<and>
   \<not> hasReceivedSufficientResponses (demoChecker 2 [] [''h0''] 1 1 Status_OK) \<and>
   getRequests ((demoChecker 1 [] [''h0''] 1 1 Status_OK)\<lparr>myIndex := 1\<rparr>) =
     Inr [\<lparr>target = ''h0'', dbname = ''admin'',
           cmdObj = \<lparr>hb_setName = ''rs0'', hb_protocolVersion = 1, hb_configVersion = 1,
                     hb_checkEmpty = True, hb_senderHost = ''h1'', hb_senderId = 2\<rparr>,
           timeout = 10000\<rparr>,
          \<lparr>target = ''h2'', dbname = ''admin'',
           cmdObj = \<lparr>hb_setName = ''rs0'', hb_protocolVersion = 1, hb_configVersion = 1,
                     hb_checkEmpty = True, hb_senderHost = ''h1'', hb_senderId = 2\<rparr>,
           timeout = 10000\<rparr>] \<and>
   getRequests (demoChecker 2 [] [''h0''] 1 1 Status_OK) =
     Inr [\<lparr>target = ''h1'', dbname = ''admin'',
           cmdObj = \<lparr>hb_setName = ''rs0'', hb_protocolVersion = 1, hb_configVersion = 2,
                     hb_checkEmpty = False, hb_senderHost = ''h0'', hb_senderId = 1\<rparr>,
           timeout = 10000\<rparr>,
          \<lparr>target = ''h2'', dbname = ''admin'',
           cmdObj = \<lparr>hb_setName = ''rs0'', hb_protocolVersion = 1, hb_configVersion = 2,
                     hb_checkEmpty = False, hb_senderHost = ''h0'', hb_senderId = 1\<rparr>,
           timeout = 10000\<rparr>]"
  using
    getRequests_one_per_other_member [of "(demoChecker 1 [] [''h0''] 1 1 Status_OK)\<lparr>myIndex := 1\<rparr>"]
    getRequests_one_per_other_member [of "demoChecker 2 [] [''h0''] 1 1 Status_OK"]
  by (simp add: hasReceivedSufficientResponses_def demo_defs)

subsection \<open>The member lookup\<close>

text \<open>
  Claim C10. When the request target is the endpoint of some member of the configuration,
  tabulation returns a state: the member loop finds a match and \<^verbatim>\<open>invariant(false)\<close> is
  not reached. Every request emitted by \<^verbatim>\<open>getRequests\<close> has such a target, so
  tabulating the response to an emitted request never aborts.
\<close>

theorem member_lookup_succeeds:
  "(target request \<in> getHostAndPort ` set (members (rsConfig s)) \<longrightarrow>
      (\<exists>s'. tabulateHeartbeatResponse pr request response s = Inr s')) \<and>
   (getRequests s0 = Inr requests \<and> request \<in> set requests \<longrightarrow>
      target request \<in> getHostAndPort ` set (members (rsConfig s0))) \<and>
   (getRequests s0 = Inr requests \<and> request \<in> set requests \<and> rsConfig s = rsConfig s0 \<longrightarrow>
      (\<exists>s'. tabulateHeartbeatResponse pr request response s = Inr s'))"
proof -
  have A: "\<exists>s'. tabulateHeartbeatResponse pr rq response s = Inr s'"
    if "target rq \<in> getHostAndPort ` set (members (rsConfig s))" for rq
  proof -
    from that have "find (\<lambda>m. getHostAndPort m = target rq) (members (rsConfig s)) \<noteq> None"
      unfolding find_None_iff by auto
    then show ?thesis
      by (auto simp: tabulateHeartbeatResponse_def tabulateMembers_find Let_def
               split: ResponseStatus.splits option.splits)
  qed
  have B: "target rq \<in> getHostAndPort ` set (members (rsConfig s0))"
    if g: "getRequests s0 = Inr requests" and m: "rq \<in> set requests" for rq
  proof -
    from g m obtain hb tmo where
      "rq \<in> set (requestLoop (myIndex s0) hb tmo 0 (members (rsConfig s0)) [])"
      by (auto simp: getRequests_def Let_def split: sum.splits if_splits)
    then obtain m' where "target rq = getHostAndPort m'" and
      "m' \<in> set (if 0 \<le> myIndex s0 \<and> myIndex s0 < 0 + int (length (members (rsConfig s0)))
        then take (nat (myIndex s0 - 0)) (members (rsConfig s0)) @
             drop (Suc (nat (myIndex s0 - 0))) (members (rsConfig s0))
        else members (rsConfig s0))"
      unfolding requestLoop_closed by auto
    then show ?thesis
      by (auto split: if_splits dest: in_set_takeD in_set_dropD)
  qed
  from A B show ?thesis by metis
qed

theorem member_lookup_succeeds_witness:
  "target (heartbeatTo ''h2'') \<in>
     getHostAndPort ` set (members (rsConfig (demoChecker 2 [] [''h0''] 1 1 Status_OK))) \<and>
   tabulateHeartbeatResponse demoPrinters (heartbeatTo ''h2'') replyOk
     (demoChecker 2 [] [''h0''] 1 1 Status_OK) =
     Inr (demoChecker 2 [] [''h0'', ''h2''] 2 2 Status_OK) \<and>
   getRequests (demoChecker 2 [] [''h0''] 1 1 Status_OK) =
     Inr [heartbeatTo ''h1'', heartbeatTo ''h2''] \<and>
   heartbeatTo ''h2'' \<in> set [heartbeatTo ''h1'', heartbeatTo ''h2'']"
proof -
  have g: "getRequests (demoChecker 2 [] [''h0''] 1 1 Status_OK) =
     Inr [heartbeatTo ''h1'', heartbeatTo ''h2'']"
    by (simp add: eval_defs demo_defs)
  have t: "tabulateHeartbeatResponse demoPrinters (heartbeatTo ''h2'') replyOk
     (demoChecker 2 [] [''h0''] 1 1 Status_OK) =
     Inr (demoChecker 2 [] [''h0'', ''h2''] 2 2 Status_OK)"
    by (simp add: eval_defs demo_defs)
  from member_lookup_succeeds [of "heartbeatTo ''h2''" "demoChecker 2 [] [''h0''] 1 1 Status_OK"
      demoPrinters replyOk "demoChecker 2 [] [''h0''] 1 1 Status_OK"
      "[heartbeatTo ''h1'', heartbeatTo ''h2'']"] g t
  show ?thesis by (simp add: demo_defs)
qed

subsection \<open>The single-member configuration\<close>

text \<open>
  Claim C7 as stated fails on a single-member configuration whose member is not
  electable: the constructor finalizes with NodeNotFound.
\<close>

theorem single_member_counterexample:
  "QuorumChecker_ctor demoPrinters (demoConfig 1 [mkMember 1 ''h1'' True False]) 0 =
     Inr \<lparr>rsConfig = demoConfig 1 [mkMember 1 ''h1'' True False], myIndex = 0, down = [],
          voters = [''h1''], numResponses = 1, numElectable = 0, vetoStatus = Status_OK,
          finalStatus = \<lparr>code = NodeNotFound,
            reason = ''Quorum check failed because no electable nodes responded; at least one required for config''\<rparr>\<rparr>"
  by (simp add: eval_defs demo_defs)

lemma ctor_single_member:
  assumes "members cfg = [m]"
  shows "QuorumChecker_ctor pr cfg 0 =
     Inr (onQuorumCheckComplete pr
       \<lparr>rsConfig = cfg, myIndex = 0, down = [],
        voters = (if isVoter m then [getHostAndPort m] else []),
        numResponses = 1, numElectable = (if isElectable m then 1 else 0),
        vetoStatus = Status_OK, finalStatus = canceledStatus\<rparr>)"
proof -
  have n: "getNumMembers cfg = 1" by (simp add: getNumMembers_def assms)
  have g: "getMemberAt cfg 0 = Inr m" by (simp add: getMemberAt_def n assms)
  show ?thesis
    unfolding QuorumChecker_ctor_def
    by (simp add: n g Let_def hasReceivedSufficientResponses_def canceledStatus_def)
qed

text \<open>
  Claim C7, amended. For every single-member configuration with self-index 0 the check
  is sufficient at construction and \<^verbatim>\<open>getRequests\<close> issues no request. The verdict is OK
  when the member is a voter and electable, and NodeNotFound otherwise.
\<close>

theorem single_member_check:
  assumes "members cfg = [m]"
  shows "\<exists>s. QuorumChecker_ctor pr cfg 0 = Inr s \<and> hasReceivedSufficientResponses s \<and>
             getRequests s = Inr [] \<and>
             (isVoter m \<and> isElectable m \<longrightarrow> finalStatus s = Status_OK) \<and>
             (\<not> (isVoter m \<and> isElectable m) \<longrightarrow> code (finalStatus s) = NodeNotFound)"
proof -
  define t where "t = \<lparr>rsConfig = cfg, myIndex = 0, down = [],
        voters = (if isVoter m then [getHostAndPort m] else []),
        numResponses = 1, numElectable = (if isElectable m then 1 else 0),
        vetoStatus = Status_OK, finalStatus = canceledStatus\<rparr>"
  define s where "s = onQuorumCheckComplete pr t"
  have n: "getNumMembers cfg = 1" by (simp add: getNumMembers_def assms)
  have g: "getMemberAt cfg 0 = Inr m" by (simp add: getMemberAt_def n assms)
  have maj: "getMajorityVoteCount cfg = 1"
    by (simp add: getMajorityVoteCount_def assms)
  have c: "QuorumChecker_ctor pr cfg 0 = Inr s"
    unfolding s_def t_def by (rule ctor_single_member [OF assms])
  have fr: "rsConfig s = cfg" "myIndex s = 0" "numResponses s = 1"
    by (simp_all add: s_def onQuorumCheckComplete_frame t_def)
  have suff: "hasReceivedSufficientResponses s"
    by (simp add: hasReceivedSufficientResponses_def fr n)
  have req: "getRequests s = Inr []"
    using suff by (simp add: getRequests_def fr g)
  have ok: "finalStatus s = Status_OK" if "isVoter m" "isElectable m"
    using that
    by (simp add: s_def t_def onQuorumCheckComplete_def maj isOK_def Status_OK_def)
  have bad: "code (finalStatus s) = NodeNotFound" if "\<not> (isVoter m \<and> isElectable m)"
    using that
    by (auto simp: s_def t_def onQuorumCheckComplete_def maj isOK_def Status_OK_def)
  from c suff req ok bad show ?thesis by blast
qed

theorem single_member_check_witness:
  "members (demoConfig 1 [mkMember 1 ''h1'' True True]) = [mkMember 1 ''h1'' True True] \<and>
   QuorumChecker_ctor demoPrinters (demoConfig 1 [mkMember 1 ''h1'' True True]) 0 =
     Inr \<lparr>rsConfig = demoConfig 1 [mkMember 1 ''h1'' True True], myIndex = 0, down = [],
          voters = [''h1''], numResponses = 1, numElectable = 1, vetoStatus = Status_OK,
          finalStatus = Status_OK\<rparr> \<and>
   getRequests \<lparr>rsConfig = demoConfig 1 [mkMember 1 ''h1'' True True], myIndex = 0, down = [],
          voters = [''h1''], numResponses = 1, numElectable = 1, vetoStatus = Status_OK,
          finalStatus = Status_OK\<rparr> = Inr []"
proof -
  have m: "members (demoConfig 1 [mkMember 1 ''h1'' True True]) = [mkMember 1 ''h1'' True True]"
    by (simp add: demoConfig_def)
  have c: "QuorumChecker_ctor demoPrinters (demoConfig 1 [mkMember 1 ''h1'' True True]) 0 =
     Inr \<lparr>rsConfig = demoConfig 1 [mkMember 1 ''h1'' True True], myIndex = 0, down = [],
          voters = [''h1''], numResponses = 1, numElectable = 1, vetoStatus = Status_OK,
          finalStatus = Status_OK\<rparr>"
    by (simp add: eval_defs demo_defs)
  from single_member_check [OF m, of demoPrinters] c m show ?thesis by auto
qed

subsection \<open>Responses after a veto\<close>

text \<open>
  Claim C8 as stated fails when a second vetoing response is processed: its message
  replaces the first one in both \<open>vetoStatus\<close> and \<open>finalStatus\<close>.
\<close>

theorem later_veto_replaces_status:
  "map_sum id finalStatus
     (processResponses demoPrinters [(heartbeatTo ''h1'', replyMismatch)]
        (demoChecker 3 [] [''h0''] 1 1 Status_OK)) =
     Inr \<lparr>code = NewReplicaSetConfigurationIncompatible,
          reason = ''Our set name did not match that of h1''\<rparr> \<and>
   map_sum id finalStatus
     (processResponses demoPrinters
        [(heartbeatTo ''h1'', replyMismatch), (heartbeatTo ''h2'', replyMismatch)]
        (demoChecker 3 [] [''h0''] 1 1 Status_OK)) =
     Inr \<lparr>code = NewReplicaSetConfigurationIncompatible,
          reason = ''Our set name did not match that of h2''\<rparr>"
  by (simp add: eval_defs demo_defs)

lemma processResponse_after_veto:
  assumes "processResponse pr request response s = Inr s'"
    and "\<not> isOK (vetoStatus s)" and "finalStatus s = vetoStatus s"
    and "\<not> vetoes (rsConfig s) response"
  shows "vetoStatus s' = vetoStatus s \<and> finalStatus s' = finalStatus s"
proof -
  from assms(1) obtain t where t: "tabulateHeartbeatResponse pr request response s = Inr t"
    and s': "s' = (if hasReceivedSufficientResponses t then onQuorumCheckComplete pr t else t)"
    by (auto simp: processResponse_def split: sum.splits if_splits)
  have v: "vetoStatus t = vetoStatus s"
    using t assms(4)
    by (auto simp: tabulateHeartbeatResponse_def tabulateMembers_find vetoes_def Let_def
             split: ResponseStatus.splits if_splits option.splits)
  have f: "finalStatus t = finalStatus s" by (rule tabulate_frame(5) [OF t])
  from v assms(2) have "\<not> isOK (vetoStatus t)" by simp
  then show ?thesis
    using v f assms(3)
    by (simp add: s' hasReceivedSufficientResponses_def onQuorumCheckComplete_def)
qed

lemma processResponses_after_veto:
  assumes "processResponses pr rs s = Inr s'"
    and "\<not> isOK (vetoStatus s)" and "finalStatus s = vetoStatus s"
    and "\<forall>r \<in> set rs. \<not> vetoes (rsConfig s) (snd r)"
  shows "vetoStatus s' = vetoStatus s \<and> finalStatus s' = finalStatus s"
  using assms
proof (induction rs arbitrary: s)
  case Nil
  then show ?case by simp
next
  case (Cons r rs)
  obtain rq rsp where r: "r = (rq, rsp)" by (cases r)
  from Cons.prems(1) obtain t where t: "processResponse pr rq rsp s = Inr t"
    and rest: "processResponses pr rs t = Inr s'"
    by (auto simp: r split: sum.splits)
  have cfg: "rsConfig t = rsConfig s" by (rule processResponse_frame(1) [OF t])
  from Cons.prems(4) have nv: "\<not> vetoes (rsConfig s) rsp" by (simp add: r)
  from processResponse_after_veto [OF t Cons.prems(2,3) nv]
  have same: "vetoStatus t = vetoStatus s" "finalStatus t = finalStatus s" by simp_all
  have "vetoStatus s' = vetoStatus t \<and> finalStatus s' = finalStatus t"
  proof (rule Cons.IH [OF rest])
    show "\<not> isOK (vetoStatus t)" using same Cons.prems(2) by simp
    show "finalStatus t = vetoStatus t" using same Cons.prems(3) by simp
    show "\<forall>r \<in> set rs. \<not> vetoes (rsConfig t) (snd r)" using Cons.prems(4) by (simp add: cfg)
  qed
  with same show ?case by simp
qed

lemma processResponse_veto_status:
  assumes "processResponse pr request (ResponseValue res) s = Inr s'"
  shows "res_mismatch res \<longrightarrow>
           finalStatus s' = \<lparr>code = NewReplicaSetConfigurationIncompatible,
             reason = ''Our set name did not match that of '' @
                      hostToString pr (target request)\<rparr>"
    and "\<not> res_mismatch res \<and> res_set res \<noteq> [] \<and> res_v res \<ge> getConfigVersion (rsConfig s) \<longrightarrow>
           finalStatus s' = \<lparr>code = NewReplicaSetConfigurationIncompatible,
             reason = ''Our config version of '' @
                      streamInt pr (getConfigVersion (rsConfig s)) @
                      '' is no larger than the version on '' @
                      hostToString pr (target request) @
                      '', which is '' @ res_v_toString res\<rparr>"
  using assms
  by (auto simp: processResponse_def tabulateHeartbeatResponse_def
        hasReceivedSufficientResponses_def onQuorumCheckComplete_def isOK_def Let_def
      split: if_splits)

text \<open>
  Claim C8, amended. Once a processed response has set the veto, the final status has the
  code NewReplicaSetConfigurationIncompatible, and it keeps that code after every further
  \<^verbatim>\<open>processResponse\<close> call. Further responses that are not themselves vetoes leave the
  final status unchanged, message included. A further response that is itself a veto
  replaces the final status by its own: the mismatch message naming its target, or the
  version message naming its target and version.
\<close>

theorem veto_code_is_kept:
  assumes "processResponse pr request response s0 = Inr s"
    and "vetoes (rsConfig s0) response"
    and "processResponses pr rs s = Inr s'"
  shows "code (finalStatus s) = NewReplicaSetConfigurationIncompatible \<and>
         code (finalStatus s') = NewReplicaSetConfigurationIncompatible \<and>
         ((\<forall>r \<in> set rs. \<not> vetoes (rsConfig s0) (snd r)) \<longrightarrow> finalStatus s' = finalStatus s) \<and>
         (processResponse pr request2 (ResponseValue res) s' = Inr s'' \<and> res_mismatch res \<longrightarrow>
            finalStatus s'' = \<lparr>code = NewReplicaSetConfigurationIncompatible,
              reason = ''Our set name did not match that of '' @
                       hostToString pr (target request2)\<rparr>) \<and>
         (processResponse pr request2 (ResponseValue res) s' = Inr s'' \<and> \<not> res_mismatch res \<and>
          res_set res \<noteq> [] \<and> res_v res \<ge> getConfigVersion (rsConfig s0) \<longrightarrow>
            finalStatus s'' = \<lparr>code = NewReplicaSetConfigurationIncompatible,
              reason = ''Our config version of '' @
                       streamInt pr (getConfigVersion (rsConfig s0)) @
                       '' is no larger than the version on '' @
                       hostToString pr (target request2) @
                       '', which is '' @ res_v_toString res\<rparr>)"
proof -
  from processResponse_sets_veto [OF assms(1)] assms(2)
  have v: "code (vetoStatus s) = NewReplicaSetConfigurationIncompatible"
    and f: "finalStatus s = vetoStatus s" by simp_all
  from processResponses_keep_veto [OF assms(3) v f]
  have v': "code (finalStatus s') = NewReplicaSetConfigurationIncompatible" by simp
  have cfg: "rsConfig s = rsConfig s0" by (rule processResponse_frame(1) [OF assms(1)])
  have cfg': "rsConfig s' = rsConfig s0"
    using processResponses_frame [OF assms(3)] cfg by simp
  have nok: "\<not> isOK (vetoStatus s)" using v by (simp add: isOK_def)
  have same: "finalStatus s' = finalStatus s"
    if "\<forall>r \<in> set rs. \<not> vetoes (rsConfig s0) (snd r)"
    using processResponses_after_veto [OF assms(3) nok f] that by (simp add: cfg)
  have m: "finalStatus s'' = \<lparr>code = NewReplicaSetConfigurationIncompatible,
              reason = ''Our set name did not match that of '' @
                       hostToString pr (target request2)\<rparr>"
    if "processResponse pr request2 (ResponseValue res) s' = Inr s''" and "res_mismatch res"
    using processResponse_veto_status(1) [OF that(1)] that(2) by simp
  have n: "finalStatus s'' = \<lparr>code = NewReplicaSetConfigurationIncompatible,
              reason = ''Our config version of '' @
                       streamInt pr (getConfigVersion (rsConfig s0)) @
                       '' is no larger than the version on '' @
                       hostToString pr (target request2) @
                       '', which is '' @ res_v_toString res\<rparr>"
    if "processResponse pr request2 (ResponseValue res) s' = Inr s''"
      and "\<not> res_mismatch res \<and> res_set res \<noteq> [] \<and> res_v res \<ge> getConfigVersion (rsConfig s0)"
    using processResponse_veto_status(2) [OF that(1)] that(2) by (simp add: cfg')
  show ?thesis
  proof (intro conjI impI)
    show "code (finalStatus s) = NewReplicaSetConfigurationIncompatible"
      using v f by simp
  next
    show "code (finalStatus s') = NewReplicaSetConfigurationIncompatible" by (rule v')
  next
    assume "\<forall>r \<in> set rs. \<not> vetoes (rsConfig s0) (snd r)"
    then show "finalStatus s' = finalStatus s" by (rule same)
  next
    assume "processResponse pr request2 (ResponseValue res) s' = Inr s'' \<and> res_mismatch res"
    then have p: "processResponse pr request2 (ResponseValue res) s' = Inr s''"
      and q: "res_mismatch res" by simp_all
    show "finalStatus s'' = \<lparr>code = NewReplicaSetConfigurationIncompatible,
              reason = ''Our set name did not match that of '' @
                       hostToString pr (target request2)\<rparr>"
      by (rule m [OF p q])
  next
    assume "processResponse pr request2 (ResponseValue res) s' = Inr s'' \<and> \<not> res_mismatch res \<and>
          res_set res \<noteq> [] \<and> res_v res \<ge> getConfigVersion (rsConfig s0)"
    then have p: "processResponse pr request2 (ResponseValue res) s' = Inr s''"
      and q: "\<not> res_mismatch res \<and> res_set res \<noteq> [] \<and>
              res_v res \<ge> getConfigVersion (rsConfig s0)" by simp_all
    show "finalStatus s'' = \<lparr>code = NewReplicaSetConfigurationIncompatible,
              reason = ''Our config version of '' @
                       streamInt pr (getConfigVersion (rsConfig s0)) @
                       '' is no larger than the version on '' @
                       hostToString pr (target request2) @
                       '', which is '' @ res_v_toString res\<rparr>"
      by (rule n [OF p q])
  qed
qed

theorem veto_code_is_kept_witness:
  "processResponse demoPrinters (heartbeatTo ''h1'') replyMismatch
     (demoChecker 3 [] [''h0''] 1 1 Status_OK) =
     Inr ((demoChecker 3 [] [''h0''] 2 1
            \<lparr>code = NewReplicaSetConfigurationIncompatible,
             reason = ''Our set name did not match that of h1''\<rparr>)
          \<lparr>finalStatus := \<lparr>code = NewReplicaSetConfigurationIncompatible,
             reason = ''Our set name did not match that of h1''\<rparr>\<rparr>) \<and>
   vetoes (rsConfig (demoChecker 3 [] [''h0''] 1 1 Status_OK)) replyMismatch \<and>
   processResponses demoPrinters [(heartbeatTo ''h2'', replyOk)]
     ((demoChecker 3 [] [''h0''] 2 1
            \<lparr>code = NewReplicaSetConfigurationIncompatible,
             reason = ''Our set name did not match that of h1''\<rparr>)
          \<lparr>finalStatus := \<lparr>code = NewReplicaSetConfigurationIncompatible,
             reason = ''Our set name did not match that of h1''\<rparr>\<rparr>) =
     Inr ((demoChecker 3 [] [''h0'', ''h2''] 3 2
            \<lparr>code = NewReplicaSetConfigurationIncompatible,
             reason = ''Our set name did not match that of h1''\<rparr>)
          \<lparr>finalStatus := \<lparr>code = NewReplicaSetConfigurationIncompatible,
             reason = ''Our set name did not match that of h1''\<rparr>\<rparr>) \<and>
   \<not> vetoes (rsConfig (demoChecker 3 [] [''h0''] 1 1 Status_OK)) replyOk \<and>
   processResponse demoPrinters (heartbeatTo ''h2'') replyMismatch
     ((demoChecker 3 [] [''h0'', ''h2''] 3 2
            \<lparr>code = NewReplicaSetConfigurationIncompatible,
             reason = ''Our set name did not match that of h1''\<rparr>)
          \<lparr>finalStatus := \<lparr>code = NewReplicaSetConfigurationIncompatible,
             reason = ''Our set name did not match that of h1''\<rparr>\<rparr>) =
     Inr ((demoChecker 3 [] [''h0'', ''h2''] 4 2
            \<lparr>code = NewReplicaSetConfigurationIncompatible,
             reason = ''Our set name did not match that of h2''\<rparr>)
          \<lparr>finalStatus := \<lparr>code = NewReplicaSetConfigurationIncompatible,
             reason = ''Our set name did not match that of h2''\<rparr>\<rparr>) \<and>
   processResponse demoPrinters (heartbeatTo ''h2'') (replyInstalled 3)
     ((demoChecker 3 [] [''h0'', ''h2''] 3 2
            \<lparr>code = NewReplicaSetConfigurationIncompatible,
             reason = ''Our set name did not match that of h1''\<rparr>)
          \<lparr>finalStatus := \<lparr>code = NewReplicaSetConfigurationIncompatible,
             reason = ''Our set name did not match that of h1''\<rparr>\<rparr>) =
     Inr ((demoChecker 3 [] [''h0'', ''h2''] 4 2
            \<lparr>code = NewReplicaSetConfigurationIncompatible,
             reason = ''Our config version of 3 is no larger than the version on h2, which is v: 3''\<rparr>)
          \<lparr>finalStatus := \<lparr>code = NewReplicaSetConfigurationIncompatible,
             reason = ''Our config version of 3 is no larger than the version on h2, which is v: 3''\<rparr>\<rparr>)"
proof -
  have a: "processResponse demoPrinters (heartbeatTo ''h1'') replyMismatch
     (demoChecker 3 [] [''h0''] 1 1 Status_OK) =
     Inr ((demoChecker 3 [] [''h0''] 2 1
            \<lparr>code = NewReplicaSetConfigurationIncompatible,
             reason = ''Our set name did not match that of h1''\<rparr>)
          \<lparr>finalStatus := \<lparr>code = NewReplicaSetConfigurationIncompatible,
             reason = ''Our set name did not match that of h1''\<rparr>\<rparr>)"
    by (simp add: eval_defs demo_defs)
  have b: "vetoes (rsConfig (demoChecker 3 [] [''h0''] 1 1 Status_OK)) replyMismatch"
    by (simp add: vetoes_def demo_defs)
  have c: "processResponses demoPrinters [(heartbeatTo ''h2'', replyOk)]
     ((demoChecker 3 [] [''h0''] 2 1
            \<lparr>code = NewReplicaSetConfigurationIncompatible,
             reason = ''Our set name did not match that of h1''\<rparr>)
          \<lparr>finalStatus := \<lparr>code = NewReplicaSetConfigurationIncompatible,
             reason = ''Our set name did not match that of h1''\<rparr>\<rparr>) =
     Inr ((demoChecker 3 [] [''h0'', ''h2''] 3 2
            \<lparr>code = NewReplicaSetConfigurationIncompatible,
             reason = ''Our set name did not match that of h1''\<rparr>)
          \<lparr>finalStatus := \<lparr>code = NewReplicaSetConfigurationIncompatible,
             reason = ''Our set name did not match that of h1''\<rparr>\<rparr>)"
    by (simp add: eval_defs demo_defs)
  have e: "\<not> vetoes (rsConfig (demoChecker 3 [] [''h0''] 1 1 Status_OK)) replyOk"
    by (simp add: vetoes_def demo_defs)
  have g: "processResponse demoPrinters (heartbeatTo ''h2'') replyMismatch
     ((demoChecker 3 [] [''h0'', ''h2''] 3 2
            \<lparr>code = NewReplicaSetConfigurationIncompatible,
             reason = ''Our set name did not match that of h1''\<rparr>)
          \<lparr>finalStatus := \<lparr>code = NewReplicaSetConfigurationIncompatible,
             reason = ''Our set name did not match that of h1''\<rparr>\<rparr>) =
     Inr ((demoChecker 3 [] [''h0'', ''h2''] 4 2
            \<lparr>code = NewReplicaSetConfigurationIncompatible,
             reason = ''Our set name did not match that of h2''\<rparr>)
          \<lparr>finalStatus := \<lparr>code = NewReplicaSetConfigurationIncompatible,
             reason = ''Our set name did not match that of h2''\<rparr>\<rparr>)"
    by (simp add: eval_defs demo_defs)
  have h: "processResponse demoPrinters (heartbeatTo ''h2'') (replyInstalled 3)
     ((demoChecker 3 [] [''h0'', ''h2''] 3 2
            \<lparr>code = NewReplicaSetConfigurationIncompatible,
             reason = ''Our set name did not match that of h1''\<rparr>)
          \<lparr>finalStatus := \<lparr>code = NewReplicaSetConfigurationIncompatible,
             reason = ''Our set name did not match that of h1''\<rparr>\<rparr>) =
     Inr ((demoChecker 3 [] [''h0'', ''h2''] 4 2
            \<lparr>code = NewReplicaSetConfigurationIncompatible,
             reason = ''Our config version of 3 is no larger than the version on h2, which is v: 3''\<rparr>)
          \<lparr>finalStatus := \<lparr>code = NewReplicaSetConfigurationIncompatible,
             reason = ''Our config version of 3 is no larger than the version on h2, which is v: 3''\<rparr>\<rparr>)"
    by (simp add: eval_defs demo_defs)
  from veto_code_is_kept [OF a b c,
         of "heartbeatTo ''h2''"
            "\<lparr>res_mismatch = True, res_set = [], res_v = 0,
              res_v_toString = ''EOO'', res_ok = False\<rparr>"
            "(demoChecker 3 [] [''h0'', ''h2''] 4 2
               \<lparr>code = NewReplicaSetConfigurationIncompatible,
                reason = ''Our set name did not match that of h2''\<rparr>)
             \<lparr>finalStatus := \<lparr>code = NewReplicaSetConfigurationIncompatible,
                reason = ''Our set name did not match that of h2''\<rparr>\<rparr>"]
       veto_code_is_kept [OF a b c,
         of "heartbeatTo ''h2''"
            "\<lparr>res_mismatch = False, res_set = ''rs0'', res_v = 3,
              res_v_toString = ''v: 3'', res_ok = True\<rparr>"
            "(demoChecker 3 [] [''h0'', ''h2''] 4 2
               \<lparr>code = NewReplicaSetConfigurationIncompatible,
                reason = ''Our config version of 3 is no larger than the version on h2, which is v: 3''\<rparr>)
             \<lparr>finalStatus := \<lparr>code = NewReplicaSetConfigurationIncompatible,
                reason = ''Our config version of 3 is no larger than the version on h2, which is v: 3''\<rparr>\<rparr>"]
       a b c e g h
  show ?thesis by simp
qed

subsection \<open>Monotonicity of sufficiency and the writes of the final status\<close>

text \<open>
  Claim C9 as stated fails twice. A response beyond the member count moves
  \<open>numResponses\<close> past the number of members and the predicate, true before, is false.
  And a veto processed after a reconfig check became sufficient runs finalization a second
  time, replacing the OK written first.
\<close>

theorem sufficiency_lost_and_status_rewritten:
  "map_sum id hasReceivedSufficientResponses
     (runCheck demoPrinters (demoConfig 1 threeNodes) 0
        [(heartbeatTo ''h1'', replyOk), (heartbeatTo ''h2'', replyOk)]) = Inr True \<and>
   map_sum id hasReceivedSufficientResponses
     (runCheck demoPrinters (demoConfig 1 threeNodes) 0
        [(heartbeatTo ''h1'', replyOk), (heartbeatTo ''h2'', replyOk),
         (heartbeatTo ''h2'', replyOk)]) = Inr False \<and>
   map_sum id finalStatus
     (runCheck demoPrinters (demoConfig 3 threeNodes) 0
        [(heartbeatTo ''h1'', replyOk)]) = Inr Status_OK \<and>
   map_sum id finalStatus
     (runCheck demoPrinters (demoConfig 3 threeNodes) 0
        [(heartbeatTo ''h1'', replyOk), (heartbeatTo ''h2'', replyMismatch)]) =
     Inr \<lparr>code = NewReplicaSetConfigurationIncompatible,
          reason = ''Our set name did not match that of h2''\<rparr>"
  by (simp add: eval_defs demo_defs)

lemma processResponses_append:
  "processResponses pr (rs @ rs') s =
     (case processResponses pr rs s of Inl e \<Rightarrow> Inl e | Inr t \<Rightarrow> processResponses pr rs' t)"
  by (induction rs arbitrary: s) (auto split: sum.splits)

lemma onQuorumCheckComplete_idem:
  "onQuorumCheckComplete pr (onQuorumCheckComplete pr s) = onQuorumCheckComplete pr s"
  by (simp add: onQuorumCheckComplete_def)

lemma processResponse_finalized:
  assumes "processResponse pr request response s = Inr s'"
    and "hasReceivedSufficientResponses s'"
  shows "onQuorumCheckComplete pr s' = s'"
proof -
  from assms(1) obtain t where t: "tabulateHeartbeatResponse pr request response s = Inr t"
    and s': "s' = (if hasReceivedSufficientResponses t then onQuorumCheckComplete pr t else t)"
    by (auto simp: processResponse_def split: sum.splits if_splits)
  show ?thesis
  proof (cases "hasReceivedSufficientResponses t")
    case True
    then show ?thesis by (simp add: s' onQuorumCheckComplete_idem)
  next
    case False
    with assms(2) show ?thesis by (simp add: s')
  qed
qed

lemma processResponse_not_finalized:
  assumes "processResponse pr request response s = Inr s'"
    and "\<not> hasReceivedSufficientResponses s'"
  shows "finalStatus s' = finalStatus s"
proof -
  from assms(1) obtain t where t: "tabulateHeartbeatResponse pr request response s = Inr t"
    and s': "s' = (if hasReceivedSufficientResponses t then onQuorumCheckComplete pr t else t)"
    by (auto simp: processResponse_def split: sum.splits if_splits)
  from assms(2) have "\<not> hasReceivedSufficientResponses t"
    by (auto simp: s' hasReceivedSufficientResponses_onQuorumCheckComplete split: if_splits)
  then show ?thesis using tabulate_frame(5) [OF t] by (simp add: s')
qed

lemma sufficient_step:
  assumes "processResponse pr request response s = Inr s'"
    and "hasReceivedSufficientResponses s"
    and "0 \<le> numElectable s"
    and "numResponses s \<noteq> getNumMembers (rsConfig s)"
  shows "hasReceivedSufficientResponses s'"
proof -
  note fr = processResponse_frame [OF assms(1)]
  show ?thesis
  proof (cases "isOK (vetoStatus s)")
    case False
    with fr(5) show ?thesis by (simp add: hasReceivedSufficientResponses_def)
  next
    case True
    with assms(2,4) have "getConfigVersion (rsConfig s) \<noteq> 1" and "numElectable s \<noteq> 0"
      and "\<not> int (length (voters s)) < getMajorityVoteCount (rsConfig s)"
      by (auto simp: hasReceivedSufficientResponses_def split: if_splits)
    with fr(1,4,6) assms(3) show ?thesis
      by (auto simp: hasReceivedSufficientResponses_def)
  qed
qed

lemma sufficient_steps:
  assumes "processResponses pr rs s = Inr s'"
    and "hasReceivedSufficientResponses s"
    and "0 \<le> numElectable s"
    and "numResponses s' \<le> getNumMembers (rsConfig s)"
  shows "hasReceivedSufficientResponses s'"
  using assms
proof (induction rs arbitrary: s)
  case Nil
  then show ?case by simp
next
  case (Cons r rs)
  obtain rq rsp where r: "r = (rq, rsp)" by (cases r)
  from Cons.prems(1) obtain t where t: "processResponse pr rq rsp s = Inr t"
    and rest: "processResponses pr rs t = Inr s'"
    by (auto simp: r split: sum.splits)
  note fr = processResponse_frame [OF t]
  from processResponses_frame [OF rest] fr(3)
  have n: "numResponses s' = numResponses s + 1 + int (length rs)" by simp
  with Cons.prems(4) have ne: "numResponses s \<noteq> getNumMembers (rsConfig s)" by linarith
  have "hasReceivedSufficientResponses t"
    by (rule sufficient_step [OF t Cons.prems(2,3) ne])
  moreover have "0 \<le> numElectable t" using fr(4) Cons.prems(3) by linarith
  moreover have "numResponses s' \<le> getNumMembers (rsConfig t)"
    using Cons.prems(4) by (simp add: fr(1))
  ultimately show ?case by (rule Cons.IH [OF rest])
qed

lemma not_sufficient_untouched:
  assumes "processResponses pr rs s = Inr s'"
    and "\<not> hasReceivedSufficientResponses s'"
    and "0 \<le> numElectable s"
    and "numResponses s' \<le> getNumMembers (rsConfig s)"
  shows "finalStatus s' = finalStatus s \<and> \<not> hasReceivedSufficientResponses s"
proof -
  have ns: "\<not> hasReceivedSufficientResponses s"
    using sufficient_steps [OF assms(1) _ assms(3,4)] assms(2) by blast
  have "finalStatus s' = finalStatus s"
    using assms
  proof (induction rs arbitrary: s)
    case Nil
    then show ?case by simp
  next
    case (Cons r rs)
    obtain rq rsp where r: "r = (rq, rsp)" by (cases r)
    from Cons.prems(1) obtain t where t: "processResponse pr rq rsp s = Inr t"
      and rest: "processResponses pr rs t = Inr s'"
      by (auto simp: r split: sum.splits)
    note fr = processResponse_frame [OF t]
    have e: "0 \<le> numElectable t" using fr(4) Cons.prems(3) by linarith
    have b: "numResponses s' \<le> getNumMembers (rsConfig t)"
      using Cons.prems(4) by (simp add: fr(1))
    have "\<not> hasReceivedSufficientResponses t"
      using sufficient_steps [OF rest _ e b] Cons.prems(2) by blast
    then have "finalStatus t = finalStatus s" by (rule processResponse_not_finalized [OF t])
    moreover have "finalStatus s' = finalStatus t"
      by (rule Cons.IH [OF rest Cons.prems(2) e b])
    ultimately show ?case by simp
  qed
  with ns show ?thesis by simp
qed

lemma ctor_finalized:
  assumes "QuorumChecker_ctor pr cfg idx = Inr s"
  shows "hasReceivedSufficientResponses s \<longrightarrow> onQuorumCheckComplete pr s = s"
    and "\<not> hasReceivedSufficientResponses s \<longrightarrow> finalStatus s = canceledStatus"
  using assms
  by (auto simp: QuorumChecker_ctor_def Let_def onQuorumCheckComplete_idem canceledStatus_def
        hasReceivedSufficientResponses_onQuorumCheckComplete
      split: if_splits sum.splits)

lemma runCheck_finalized:
  assumes "runCheck pr cfg idx rs = Inr s" and "hasReceivedSufficientResponses s"
  shows "onQuorumCheckComplete pr s = s"
proof -
  from assms(1) obtain s0 where c: "QuorumChecker_ctor pr cfg idx = Inr s0"
    and p: "processResponses pr rs s0 = Inr s"
    by (auto simp: runCheck_def split: sum.splits)
  show ?thesis
  proof (cases rs rule: rev_cases)
    case Nil
    with p have "s = s0" by simp
    with ctor_finalized(1) [OF c] assms(2) show ?thesis by simp
  next
    case (snoc rs' r)
    obtain rq rsp where r: "r = (rq, rsp)" by (cases r)
    from p obtain t where "processResponse pr rq rsp t = Inr s"
      by (auto simp: snoc r processResponses_append split: sum.splits)
    then show ?thesis using assms(2) by (rule processResponse_finalized)
  qed
qed

text \<open>
  Claim C9, amended. Within one check, as long as \<open>numResponses\<close> stays within the
  number of members, the sufficiency predicate is monotone: true in a state, it is true
  after any further \<^verbatim>\<open>processResponse\<close> calls. While it has not held, \<open>finalStatus\<close> is
  still the cancelled sentinel; in every state where it holds, \<open>finalStatus\<close> is the
  result of finalization on that state. (Finalization runs in every call that ends in a
  sufficient state, so it runs once when no call follows the first such state.)
\<close>

theorem sufficiency_within_member_count:
  "(runCheck pr cfg idx rs = Inr s \<and> hasReceivedSufficientResponses s \<and>
    processResponses pr rs' s = Inr s' \<and> numResponses s' \<le> getNumMembers cfg \<longrightarrow>
      hasReceivedSufficientResponses s') \<and>
   (runCheck pr cfg idx rs = Inr s \<and> \<not> hasReceivedSufficientResponses s \<and>
    numResponses s \<le> getNumMembers cfg \<longrightarrow> finalStatus s = canceledStatus) \<and>
   (runCheck pr cfg idx rs = Inr s \<and> hasReceivedSufficientResponses s \<longrightarrow>
      onQuorumCheckComplete pr s = s)"
proof (intro conjI impI)
  assume a: "runCheck pr cfg idx rs = Inr s \<and> hasReceivedSufficientResponses s \<and>
    processResponses pr rs' s = Inr s' \<and> numResponses s' \<le> getNumMembers cfg"
  then have run: "runCheck pr cfg idx rs = Inr s" by simp
  note fr = runCheck_frame [OF run]
  from a have "numResponses s' \<le> getNumMembers (rsConfig s)" by (simp add: fr(1))
  with a fr(5) show "hasReceivedSufficientResponses s'"
    using sufficient_steps by blast
next
  assume a: "runCheck pr cfg idx rs = Inr s \<and> \<not> hasReceivedSufficientResponses s \<and>
    numResponses s \<le> getNumMembers cfg"
  then obtain s0 where c: "QuorumChecker_ctor pr cfg idx = Inr s0"
    and p: "processResponses pr rs s0 = Inr s"
    by (auto simp: runCheck_def split: sum.splits)
  have e: "0 \<le> numElectable s0" by (simp add: ctor_frame(6) [OF c])
  have b: "numResponses s \<le> getNumMembers (rsConfig s0)"
    using a by (simp add: ctor_frame(1) [OF c])
  from a have ns: "\<not> hasReceivedSufficientResponses s" by simp
  from not_sufficient_untouched [OF p ns e b] ctor_finalized(2) [OF c]
  show "finalStatus s = canceledStatus" by simp
next
  assume "runCheck pr cfg idx rs = Inr s \<and> hasReceivedSufficientResponses s"
  then show "onQuorumCheckComplete pr s = s" using runCheck_finalized by blast
qed

theorem sufficiency_within_member_count_witness:
  "runCheck demoPrinters (demoConfig 3 threeNodes) 0 [(heartbeatTo ''h1'', replyOk)] =
     Inr ((demoChecker 3 [] [''h0'', ''h1''] 2 2 Status_OK)\<lparr>finalStatus := Status_OK\<rparr>) \<and>
   hasReceivedSufficientResponses
     ((demoChecker 3 [] [''h0'', ''h1''] 2 2 Status_OK)\<lparr>finalStatus := Status_OK\<rparr>) \<and>
   processResponses demoPrinters [(heartbeatTo ''h2'', timedOut)]
     ((demoChecker 3 [] [''h0'', ''h1''] 2 2 Status_OK)\<lparr>finalStatus := Status_OK\<rparr>) =
     Inr ((demoChecker 3 [''h2''] [''h0'', ''h1''] 3 2 Status_OK)\<lparr>finalStatus := Status_OK\<rparr>) \<and>
   hasReceivedSufficientResponses
     ((demoChecker 3 [''h2''] [''h0'', ''h1''] 3 2 Status_OK)\<lparr>finalStatus := Status_OK\<rparr>) \<and>
   runCheck demoPrinters (demoConfig 1 threeNodes) 0 [(heartbeatTo ''h1'', replyOk)] =
     Inr (demoChecker 1 [] [''h0'', ''h1''] 2 2 Status_OK) \<and>
   \<not> hasReceivedSufficientResponses (demoChecker 1 [] [''h0'', ''h1''] 2 2 Status_OK) \<and>
   finalStatus (demoChecker 1 [] [''h0'', ''h1''] 2 2 Status_OK) = canceledStatus"
proof -
  have r3: "runCheck demoPrinters (demoConfig 3 threeNodes) 0 [(heartbeatTo ''h1'', replyOk)] =
     Inr ((demoChecker 3 [] [''h0'', ''h1''] 2 2 Status_OK)\<lparr>finalStatus := Status_OK\<rparr>)"
    by (simp add: eval_defs demo_defs)
  have p3: "processResponses demoPrinters [(heartbeatTo ''h2'', timedOut)]
     ((demoChecker 3 [] [''h0'', ''h1''] 2 2 Status_OK)\<lparr>finalStatus := Status_OK\<rparr>) =
     Inr ((demoChecker 3 [''h2''] [''h0'', ''h1''] 3 2 Status_OK)\<lparr>finalStatus := Status_OK\<rparr>)"
    by (simp add: eval_defs demo_defs)
  have h3: "hasReceivedSufficientResponses
     ((demoChecker 3 [] [''h0'', ''h1''] 2 2 Status_OK)\<lparr>finalStatus := Status_OK\<rparr>)"
    by (simp add: eval_defs demo_defs)
  have b3: "numResponses
     ((demoChecker 3 [''h2''] [''h0'', ''h1''] 3 2 Status_OK)\<lparr>finalStatus := Status_OK\<rparr>)
       \<le> getNumMembers (demoConfig 3 threeNodes)"
    by (simp add: demo_defs)
  have r1: "runCheck demoPrinters (demoConfig 1 threeNodes) 0 [(heartbeatTo ''h1'', replyOk)] =
     Inr (demoChecker 1 [] [''h0'', ''h1''] 2 2 Status_OK)"
    by (simp add: eval_defs demo_defs)
  have h1: "\<not> hasReceivedSufficientResponses (demoChecker 1 [] [''h0'', ''h1''] 2 2 Status_OK)"
    by (simp add: eval_defs demo_defs)
  have b1: "numResponses (demoChecker 1 [] [''h0'', ''h1''] 2 2 Status_OK)
       \<le> getNumMembers (demoConfig 1 threeNodes)"
    by (simp add: demo_defs)
  from sufficiency_within_member_count [of demoPrinters "demoConfig 3 threeNodes" 0
         "[(heartbeatTo ''h1'', replyOk)]"
         "(demoChecker 3 [] [''h0'', ''h1''] 2 2 Status_OK)\<lparr>finalStatus := Status_OK\<rparr>"
         "[(heartbeatTo ''h2'', timedOut)]"
         "(demoChecker 3 [''h2''] [''h0'', ''h1''] 3 2 Status_OK)\<lparr>finalStatus := Status_OK\<rparr>"]
       r3 p3 h3 b3
  have s3: "hasReceivedSufficientResponses
     ((demoChecker 3 [''h2''] [''h0'', ''h1''] 3 2 Status_OK)\<lparr>finalStatus := Status_OK\<rparr>)"
    by blast
  from sufficiency_within_member_count [of demoPrinters "demoConfig 1 threeNodes" 0
         "[(heartbeatTo ''h1'', replyOk)]" "demoChecker 1 [] [''h0'', ''h1''] 2 2 Status_OK"]
       r1 h1 b1
  have f1: "finalStatus (demoChecker 1 [] [''h0'', ''h1''] 2 2 Status_OK) = canceledStatus"
    by blast
  from r3 h3 p3 s3 r1 h1 f1 show ?thesis by blast
qed

subsection \<open>The majority boundary\<close>

lemma tabulate_voters_grow:
  assumes "tabulateHeartbeatResponse pr request response s = Inr s'"
  shows "\<exists>ws. voters s' = voters s @ ws"
  using assms
  by (auto simp: tabulateHeartbeatResponse_def tabulateMembers_find Let_def
           split: ResponseStatus.splits if_splits option.splits)

lemma processResponse_voters_grow:
  assumes "processResponse pr request response s = Inr s'"
  shows "\<exists>ws. voters s' = voters s @ ws"
proof -
  from assms obtain t where t: "tabulateHeartbeatResponse pr request response s = Inr t"
    and s': "s' = (if hasReceivedSufficientResponses t then onQuorumCheckComplete pr t else t)"
    by (auto simp: processResponse_def split: sum.splits if_splits)
  from tabulate_voters_grow [OF t] show ?thesis
    by (simp add: s' onQuorumCheckComplete_frame)
qed

lemma processResponses_voters_grow:
  assumes "processResponses pr rs s = Inr s'"
  shows "\<exists>ws. voters s' = voters s @ ws"
  using assms
proof (induction rs arbitrary: s)
  case Nil
  then show ?case by simp
next
  case (Cons r rs)
  obtain rq rsp where r: "r = (rq, rsp)" by (cases r)
  from Cons.prems obtain t where t: "processResponse pr rq rsp s = Inr t"
    and rest: "processResponses pr rs t = Inr s'"
    by (auto simp: r split: sum.splits)
  from processResponse_voters_grow [OF t] obtain ws where "voters t = voters s @ ws" ..
  moreover from Cons.IH [OF rest] obtain ws' where "voters s' = voters t @ ws'" ..
  ultimately show ?case by simp
qed

text \<open>
  Claim C5. Take any state a check of a configuration of version above 1 has reached,
  with no veto and at least one electable responder, and let \<open>V\<close> be the number of
  voters of the configuration. If the recorded voters number at least \<open>V div 2 + 1\<close>,
  the check is sufficient and its final status is OK. If they are fewer and the check is
  sufficient, then every member is accounted for and the final status is NodeNotFound; if
  they are fewer and the check is not sufficient (within the member count), no verdict has
  been written yet. So the final status of a sufficient check is OK exactly from
  \<open>V div 2 + 1\<close> recorded voters on. The recorded voters start with the executing node
  when it is a voter.
\<close>

theorem reconfig_majority_boundary:
  assumes "runCheck pr cfg idx rs = Inr s"
    and "getConfigVersion cfg > 1" and "isOK (vetoStatus s)" and "numElectable s \<ge> 1"
  shows "(int (length (voters s)) \<ge> int (length (filter isVoter (members cfg))) div 2 + 1 \<longrightarrow>
            hasReceivedSufficientResponses s \<and> finalStatus s = Status_OK) \<and>
         (int (length (voters s)) < int (length (filter isVoter (members cfg))) div 2 + 1 \<and>
          hasReceivedSufficientResponses s \<longrightarrow>
            numResponses s = getNumMembers cfg \<and> code (finalStatus s) = NodeNotFound) \<and>
         (int (length (voters s)) < int (length (filter isVoter (members cfg))) div 2 + 1 \<and>
          \<not> hasReceivedSufficientResponses s \<and> numResponses s \<le> getNumMembers cfg \<longrightarrow>
            finalStatus s = canceledStatus) \<and>
         (hasReceivedSufficientResponses s \<longrightarrow>
            (finalStatus s = Status_OK \<longleftrightarrow>
             int (length (voters s)) \<ge> int (length (filter isVoter (members cfg))) div 2 + 1)) \<and>
         (\<exists>ws. voters s =
            (if isVoter (members cfg ! nat idx)
             then [getHostAndPort (members cfg ! nat idx)] else []) @ ws)"
proof -
  from assms(1) obtain s0 where c: "QuorumChecker_ctor pr cfg idx = Inr s0"
    and p: "processResponses pr rs s0 = Inr s"
    by (auto simp: runCheck_def split: sum.splits)
  have cfg: "rsConfig s = cfg" by (rule runCheck_frame(1) [OF assms(1)])
  have maj: "getMajorityVoteCount cfg = int (length (filter isVoter (members cfg))) div 2 + 1"
    by (simp add: getMajorityVoteCount_def)
  have ne: "numElectable s \<noteq> 0" using assms(4) by simp
  have v1: "getConfigVersion cfg \<noteq> 1" using assms(2) by simp
  have fin: "finalStatus s = finalStatus (onQuorumCheckComplete pr s)"
    if "hasReceivedSufficientResponses s"
    using runCheck_finalized [OF assms(1) that] by simp
  have above: "hasReceivedSufficientResponses s \<and> finalStatus s = Status_OK"
    if a: "int (length (voters s)) \<ge> int (length (filter isVoter (members cfg))) div 2 + 1"
  proof -
    have suff: "hasReceivedSufficientResponses s"
      using a ne v1 by (simp add: hasReceivedSufficientResponses_def cfg maj)
    have "finalStatus (onQuorumCheckComplete pr s) = Status_OK"
      using a ne v1 assms(3) by (simp add: onQuorumCheckComplete_def cfg maj)
    with fin [OF suff] suff show ?thesis by simp
  qed
  have below: "numResponses s = getNumMembers cfg \<and> code (finalStatus s) = NodeNotFound"
    if b: "int (length (voters s)) < int (length (filter isVoter (members cfg))) div 2 + 1"
      and suff: "hasReceivedSufficientResponses s"
  proof -
    have n: "numResponses s = getNumMembers cfg"
      using suff b assms(3) by (simp add: hasReceivedSufficientResponses_def cfg maj split: if_splits)
    have "code (finalStatus (onQuorumCheckComplete pr s)) = NodeNotFound"
      using b ne v1 assms(3) by (simp add: onQuorumCheckComplete_def cfg maj)
    with fin [OF suff] n show ?thesis by simp
  qed
  have pending: "finalStatus s = canceledStatus"
    if ns: "\<not> hasReceivedSufficientResponses s" and bd: "numResponses s \<le> getNumMembers cfg"
  proof -
    have e: "0 \<le> numElectable s0" by (simp add: ctor_frame(6) [OF c])
    have b: "numResponses s \<le> getNumMembers (rsConfig s0)"
      using bd by (simp add: ctor_frame(1) [OF c])
    from not_sufficient_untouched [OF p ns e b] ctor_finalized(2) [OF c]
    show ?thesis by simp
  qed
  have iff: "finalStatus s = Status_OK \<longleftrightarrow>
             int (length (voters s)) \<ge> int (length (filter isVoter (members cfg))) div 2 + 1"
    if suff: "hasReceivedSufficientResponses s"
  proof (cases "int (length (voters s)) \<ge> int (length (filter isVoter (members cfg))) div 2 + 1")
    case True
    with above show ?thesis by simp
  next
    case False
    then have "code (finalStatus s) = NodeNotFound" using below suff by simp
    then have "finalStatus s \<noteq> Status_OK" by (auto simp: Status_OK_def)
    with False show ?thesis by simp
  qed
  have pre: "\<exists>ws. voters s =
            (if isVoter (members cfg ! nat idx)
             then [getHostAndPort (members cfg ! nat idx)] else []) @ ws"
    using processResponses_voters_grow [OF p] by (simp add: ctor_frame(7) [OF c])
  show ?thesis
  proof (intro conjI impI)
    assume "int (length (filter isVoter (members cfg))) div 2 + 1 \<le> int (length (voters s))"
    then show "hasReceivedSufficientResponses s" and "finalStatus s = Status_OK"
      using above by simp_all
  next
    assume a: "int (length (voters s)) < int (length (filter isVoter (members cfg))) div 2 + 1 \<and>
          hasReceivedSufficientResponses s"
    then show "numResponses s = getNumMembers cfg" and "code (finalStatus s) = NodeNotFound"
      using below by simp_all
  next
    assume "int (length (voters s)) < int (length (filter isVoter (members cfg))) div 2 + 1 \<and>
          \<not> hasReceivedSufficientResponses s \<and> numResponses s \<le> getNumMembers cfg"
    then show "finalStatus s = canceledStatus" using pending by simp
  next
    assume "hasReceivedSufficientResponses s"
    then show "finalStatus s = Status_OK \<longleftrightarrow>
             int (length (voters s)) \<ge> int (length (filter isVoter (members cfg))) div 2 + 1"
      by (rule iff)
  next
    show "\<exists>ws. voters s =
            (if isVoter (members cfg ! nat idx)
             then [getHostAndPort (members cfg ! nat idx)] else []) @ ws"
      by (rule pre)
  qed
qed

theorem reconfig_majority_boundary_witness:
  "runCheck demoPrinters (demoConfig 2 threeNodes) 0 [(heartbeatTo ''h1'', replyOk)] =
     Inr ((demoChecker 2 [] [''h0'', ''h1''] 2 2 Status_OK)\<lparr>finalStatus := Status_OK\<rparr>) \<and>
   getConfigVersion (demoConfig 2 threeNodes) > 1 \<and>
   hasReceivedSufficientResponses
     ((demoChecker 2 [] [''h0'', ''h1''] 2 2 Status_OK)\<lparr>finalStatus := Status_OK\<rparr>) \<and>
   runCheck demoPrinters (demoConfig 2 threeNodes) 0
     [(heartbeatTo ''h1'', timedOut), (heartbeatTo ''h2'', timedOut)] =
     Inr ((demoChecker 2 [''h1'', ''h2''] [''h0''] 3 1 Status_OK)
          \<lparr>finalStatus := \<lparr>code = NodeNotFound,
             reason = ''Quorum check failed because not enough voting nodes responded; required 2 but only the following 1 voting nodes responded: h0''\<rparr>\<rparr>) \<and>
   hasReceivedSufficientResponses
     ((demoChecker 2 [''h1'', ''h2''] [''h0''] 3 1 Status_OK)
          \<lparr>finalStatus := \<lparr>code = NodeNotFound,
             reason = ''Quorum check failed because not enough voting nodes responded; required 2 but only the following 1 voting nodes responded: h0''\<rparr>\<rparr>) \<and>
   runCheck demoPrinters (demoConfig 2 threeNodes) 0 [(heartbeatTo ''h1'', timedOut)] =
     Inr (demoChecker 2 [''h1''] [''h0''] 2 1 Status_OK) \<and>
   \<not> hasReceivedSufficientResponses (demoChecker 2 [''h1''] [''h0''] 2 1 Status_OK) \<and>
   finalStatus (demoChecker 2 [''h1''] [''h0''] 2 1 Status_OK) = canceledStatus"
proof -
  have v: "getConfigVersion (demoConfig 2 threeNodes) > 1" by (simp add: demoConfig_def)
  have r1: "runCheck demoPrinters (demoConfig 2 threeNodes) 0 [(heartbeatTo ''h1'', replyOk)] =
     Inr ((demoChecker 2 [] [''h0'', ''h1''] 2 2 Status_OK)\<lparr>finalStatus := Status_OK\<rparr>)"
    by (simp add: eval_defs demo_defs)
  have r2: "runCheck demoPrinters (demoConfig 2 threeNodes) 0
     [(heartbeatTo ''h1'', timedOut), (heartbeatTo ''h2'', timedOut)] =
     Inr ((demoChecker 2 [''h1'', ''h2''] [''h0''] 3 1 Status_OK)
          \<lparr>finalStatus := \<lparr>code = NodeNotFound,
             reason = ''Quorum check failed because not enough voting nodes responded; required 2 but only the following 1 voting nodes responded: h0''\<rparr>\<rparr>)"
    by (simp add: eval_defs demo_defs)
  have r3: "runCheck demoPrinters (demoConfig 2 threeNodes) 0 [(heartbeatTo ''h1'', timedOut)] =
     Inr (demoChecker 2 [''h1''] [''h0''] 2 1 Status_OK)"
    by (simp add: eval_defs demo_defs)
  have h2: "hasReceivedSufficientResponses
     ((demoChecker 2 [''h1'', ''h2''] [''h0''] 3 1 Status_OK)
          \<lparr>finalStatus := \<lparr>code = NodeNotFound,
             reason = ''Quorum check failed because not enough voting nodes responded; required 2 but only the following 1 voting nodes responded: h0''\<rparr>\<rparr>)"
    by (simp add: hasReceivedSufficientResponses_def demo_defs)
  have h3: "\<not> hasReceivedSufficientResponses (demoChecker 2 [''h1''] [''h0''] 2 1 Status_OK)"
    by (simp add: hasReceivedSufficientResponses_def demo_defs)
  have t1: "hasReceivedSufficientResponses
     ((demoChecker 2 [] [''h0'', ''h1''] 2 2 Status_OK)\<lparr>finalStatus := Status_OK\<rparr>)"
    using reconfig_majority_boundary [OF r1 v] by (simp add: demo_defs)
  have t3: "finalStatus (demoChecker 2 [''h1''] [''h0''] 2 1 Status_OK) = canceledStatus"
    using reconfig_majority_boundary [OF r3 v] h3 by (simp add: demo_defs)
  from reconfig_majority_boundary [OF r2 v] h2
  have "code (finalStatus
     ((demoChecker 2 [''h1'', ''h2''] [''h0''] 3 1 Status_OK)
          \<lparr>finalStatus := \<lparr>code = NodeNotFound,
             reason = ''Quorum check failed because not enough voting nodes responded; required 2 but only the following 1 voting nodes responded: h0''\<rparr>\<rparr>)) = NodeNotFound"
    by (simp add: demo_defs)
  with v r1 r2 r3 h2 h3 t1 t3 show ?thesis by simp
qed

end
